theory Spec2Isabelle
  imports Main
begin

section \<open>Order tracking status (types/order-status.types.ts, src/unnamed/part_004)\<close>

text \<open>
  The enum \<^verbatim>\<open>OrderTrackingStatus\<close>, the table \<^verbatim>\<open>STATUS_STEP_MAP\<close> read by
  \<^verbatim>\<open>getStatusStep\<close>, the table \<^verbatim>\<open>VALID_TRANSITIONS\<close> read by
  \<^verbatim>\<open>isValidTransition\<close>, and \<^verbatim>\<open>formatStatusLabel\<close>.
\<close>

datatype OrderTrackingStatus =
  LISTED | MATCHED | PICKUP_SCHEDULED | AT_DROP_POINT | IN_TRANSIT | DELIVERED | PAID

fun getStatusStep :: "OrderTrackingStatus \<Rightarrow> int" where
  "getStatusStep LISTED = 1"
| "getStatusStep MATCHED = 2"
| "getStatusStep PICKUP_SCHEDULED = 3"
| "getStatusStep AT_DROP_POINT = 4"
| "getStatusStep IN_TRANSIT = 5"
| "getStatusStep DELIVERED = 6"
| "getStatusStep PAID = 7"

fun VALID_TRANSITIONS :: "OrderTrackingStatus \<Rightarrow> OrderTrackingStatus list" where
  "VALID_TRANSITIONS LISTED = [MATCHED]"
| "VALID_TRANSITIONS MATCHED = [PICKUP_SCHEDULED]"
| "VALID_TRANSITIONS PICKUP_SCHEDULED = [AT_DROP_POINT]"
| "VALID_TRANSITIONS AT_DROP_POINT = [IN_TRANSIT]"
| "VALID_TRANSITIONS IN_TRANSIT = [DELIVERED]"
| "VALID_TRANSITIONS DELIVERED = [PAID]"
| "VALID_TRANSITIONS PAID = []"

definition isValidTransition :: "OrderTrackingStatus \<Rightarrow> OrderTrackingStatus \<Rightarrow> bool" where
  "isValidTransition currentStatus newStatus =
     (let allowed = VALID_TRANSITIONS currentStatus in newStatus \<in> set allowed)"

fun formatStatusLabel :: "OrderTrackingStatus \<Rightarrow> string" where
  "formatStatusLabel LISTED = ''Listed''"
| "formatStatusLabel MATCHED = ''Matched''"
| "formatStatusLabel PICKUP_SCHEDULED = ''Pickup Scheduled''"
| "formatStatusLabel AT_DROP_POINT = ''At Drop Point''"
| "formatStatusLabel IN_TRANSIT = ''In Transit''"
| "formatStatusLabel DELIVERED = ''Delivered''"
| "formatStatusLabel PAID = ''Payment Received''"

section \<open>Failures\<close>

text \<open>
  Every \<^verbatim>\<open>throw\<close> of the source is a value. \<^verbatim>\<open>OrderStatusError\<close> and
  \<^verbatim>\<open>TransactionError\<close> carry their code; a plain \<^verbatim>\<open>Error\<close> carries its message; \<^verbatim>\<open>TypeError\<close> is what the runtime
  raises when a method is called on a value that does not have it;
  \<^verbatim>\<open>RecordNotFound\<close> is what the store's \<^verbatim>\<open>update\<close> raises when no row has the key.
\<close>

datatype OrderStatusErrorCode =
  ORDER_NOT_FOUND | INVALID_TRANSITION | ALREADY_IN_STATUS | UNAUTHORIZED

datatype TransactionErrorCode =
  TRANSACTION_NOT_FOUND | INVALID_FARMER_ID | RECEIPT_EXPIRED

datatype failure =
  OrderStatusError OrderStatusErrorCode
| TransactionError TransactionErrorCode
| Error string
| TypeError
| RecordNotFound

section \<open>OrderStatusService.validateStatusTransition\<close>

definition validateStatusTransition ::
  "OrderTrackingStatus \<Rightarrow> OrderTrackingStatus \<Rightarrow> failure + unit" where
  "validateStatusTransition currentStatus newStatus =
     (if currentStatus = newStatus then Inl (OrderStatusError ALREADY_IN_STATUS)
      else if \<not> isValidTransition currentStatus newStatus
        then Inl (OrderStatusError INVALID_TRANSITION)
      else Inr ())"

section \<open>Environment: the store and the clock\<close>

text \<open>
  Instants (\<^verbatim>\<open>Date\<close> values, \<^verbatim>\<open>Date.now()\<close>) are integers, the milliseconds since
  the epoch. The ISO string of \<^verbatim>\<open>toISOString\<close> is represented by the instant it prints.

  A timeline event is one entry of the JSON column \<^verbatim>\<open>statusHistory\<close>; the optional
  keys of \<^verbatim>\<open>TimelineEvent\<close> are options.
\<close>

record TimelineEvent =
  e_step :: int
  e_status :: OrderTrackingStatus
  e_label :: string
  e_completed :: bool
  e_active :: bool
  e_timestamp :: "int option"
  e_actor :: "string option"
  e_note :: "string option"

text \<open>
  What the JSON column \<^verbatim>\<open>statusHistory\<close> can hold, as far as \<^verbatim>\<open>parseStatusHistory\<close>
  tells values apart: \<^verbatim>\<open>null\<close>, an array (of events, as the source's cast has it), a
  string, or any other value (number, boolean, object).
\<close>

datatype history_json = JNull | JArray "TimelineEvent list" | JString string | JOther

text \<open>
  A row of the \<^verbatim>\<open>order\<close> table, with the columns that the modelled operations select
  or write (the schema itself is not among the sources; listing, buyer and amount columns
  are only copied into views and are left out).
\<close>

record OrderRow =
  o_orderNumber :: string
  o_farmerId :: int
  o_trackingStatus :: OrderTrackingStatus
  o_statusHistory :: history_json
  o_eta :: "int option"
  o_delayMinutes :: "int option"
  o_delayReason :: "string option"
  o_upiTransactionId :: "string option"
  o_haulerId :: "string option"
  o_haulerName :: "string option"
  o_haulerPhone :: "string option"
  o_haulerVehicle :: "string option"
  o_createdAt :: int
  o_updatedAt :: int
  o_paidAt :: "int option"
  o_deletedAt :: "int option"

datatype MatchStatus = PENDING_ACCEPTANCE | ACCEPTED | REJECTED | EXPIRED

text \<open>
  The \<^verbatim>\<open>Match\<close> entity (types/match.types.ts, the end of src/unnamed/part_004) without its quantity, price and buyer
  fields, which no modelled operation reads or writes.
\<close>

record Match =
  m_id :: string
  m_listingId :: string
  m_farmerId :: int
  m_orderId :: "string option"
  m_status :: MatchStatus
  m_rejectionReason :: "string option"
  m_expiresAt :: int
  m_acceptedAt :: "int option"
  m_rejectedAt :: "int option"
  m_createdAt :: int
  m_updatedAt :: int

text \<open>
  The world an operation runs in: the two tables, in the order in which the store scans
  them, and the system clock. \<^verbatim>\<open>clock k\<close> is what the \<open>k\<close>-th reading of the clock
  returns and \<^verbatim>\<open>reads\<close> counts the readings made so far, so successive
  \<^verbatim>\<open>new Date()\<close> calls of one operation may return different instants.
\<close>

record world =
  order_tbl :: "OrderRow list"
  match_tbl :: "Match list"
  clock :: "nat \<Rightarrow> int"
  reads :: nat

definition now :: "world \<Rightarrow> int" where
  "now w = clock w (reads w)"

definition tick :: "world \<Rightarrow> world" where
  "tick w = w\<lparr>reads := Suc (reads w)\<rparr>"

text \<open>
  The store's \<^verbatim>\<open>update({where, data})\<close> on a unique key: the row that
  \<^verbatim>\<open>findUnique\<close> returns for the key (the first that satisfies \<open>P\<close>) is replaced, and
  the updated row is returned with the new table; \<open>None\<close> when there is no such row (the
  store raises).
\<close>

fun replace_first :: "('a \<Rightarrow> bool) \<Rightarrow> ('a \<Rightarrow> 'a) \<Rightarrow> 'a list \<Rightarrow> 'a list" where
  "replace_first P f [] = []"
| "replace_first P f (x # xs) = (if P x then f x # xs else x # replace_first P f xs)"

definition store_update ::
  "('a \<Rightarrow> bool) \<Rightarrow> ('a \<Rightarrow> 'a) \<Rightarrow> 'a list \<Rightarrow> ('a \<times> 'a list) option" where
  "store_update P f tbl =
     (case find P tbl of
        None \<Rightarrow> None
      | Some row \<Rightarrow> Some (f row, replace_first P f tbl))"

section \<open>OrderStatusRepository (src/src/repositories/order-status.repository.ts)\<close>

fun getStepNumber :: "OrderTrackingStatus \<Rightarrow> int" where
  "getStepNumber LISTED = 1"
| "getStepNumber MATCHED = 2"
| "getStepNumber PICKUP_SCHEDULED = 3"
| "getStepNumber AT_DROP_POINT = 4"
| "getStepNumber IN_TRANSIT = 5"
| "getStepNumber DELIVERED = 6"
| "getStepNumber PAID = 7"

fun repo_formatStatusLabel :: "OrderTrackingStatus \<Rightarrow> string" where
  "repo_formatStatusLabel LISTED = ''Listed''"
| "repo_formatStatusLabel MATCHED = ''Matched''"
| "repo_formatStatusLabel PICKUP_SCHEDULED = ''Pickup Scheduled''"
| "repo_formatStatusLabel AT_DROP_POINT = ''At Drop Point''"
| "repo_formatStatusLabel IN_TRANSIT = ''In Transit''"
| "repo_formatStatusLabel DELIVERED = ''Delivered''"
| "repo_formatStatusLabel PAID = ''Payment Received''"

text \<open>
  \<^verbatim>\<open>parseStatusHistory\<close>. \<open>JSON_parse\<close> is the runtime's \<^verbatim>\<open>JSON.parse\<close>, a parameter:
  \<open>None\<close> when it throws, otherwise the parsed value. A falsy value (\<^verbatim>\<open>null\<close>, the
  empty string) and every value that is neither an array nor a string give the empty
  array; the result of parsing a string is returned as it is, array or not.
\<close>

definition parseStatusHistory ::
  "(string \<Rightarrow> history_json option) \<Rightarrow> history_json \<Rightarrow> history_json" where
  "parseStatusHistory JSON_parse history =
     (case history of
        JNull \<Rightarrow> JArray []
      | JArray es \<Rightarrow> JArray es
      | JString s \<Rightarrow>
          (if s = [] then JArray []
           else (case JSON_parse s of None \<Rightarrow> JArray [] | Some v \<Rightarrow> v))
      | JOther \<Rightarrow> JArray [])"

text \<open>
  \<^verbatim>\<open>OrderWithTracking\<close> as \<^verbatim>\<open>findByOrderNumber\<close> builds it, without the listing,
  buyer, hauler and amount summaries.
\<close>

record OrderWithTracking =
  v_id :: string
  v_farmerId :: int
  v_trackingStatus :: OrderTrackingStatus
  v_currentStep :: int
  v_totalSteps :: int
  v_eta :: "int option"
  v_delayMinutes :: "int option"
  v_delayReason :: "string option"
  v_statusHistory :: history_json
  v_upiTransactionId :: "string option"
  v_createdAt :: int
  v_updatedAt :: int

definition findByOrderNumber ::
  "(string \<Rightarrow> history_json option) \<Rightarrow> string \<Rightarrow> world \<Rightarrow> OrderWithTracking option" where
  "findByOrderNumber JSON_parse orderNumber w =
     (case find (\<lambda>r. o_orderNumber r = orderNumber) (order_tbl w) of
        None \<Rightarrow> None
      | Some order \<Rightarrow> Some
          \<lparr> v_id = o_orderNumber order,
            v_farmerId = o_farmerId order,
            v_trackingStatus = o_trackingStatus order,
            v_currentStep = getStepNumber (o_trackingStatus order),
            v_totalSteps = 7,
            v_eta = o_eta order,
            v_delayMinutes = o_delayMinutes order,
            v_delayReason = o_delayReason order,
            v_statusHistory = parseStatusHistory JSON_parse (o_statusHistory order),
            v_upiTransactionId = o_upiTransactionId order,
            v_createdAt = o_createdAt order,
            v_updatedAt = o_updatedAt order \<rparr>)"

record HaulerInfo =
  h_id :: string
  h_name :: string
  h_phone :: string
  h_vehicleType :: "string option"
  h_vehicleNumber :: "string option"

record UpdateOrderStatusDTO =
  d_orderId :: string
  d_newStatus :: OrderTrackingStatus
  d_actor :: string
  d_note :: "string option"
  d_haulerInfo :: "HaulerInfo option"
  d_eta :: "int option"
  d_delayMinutes :: "int option"
  d_delayReason :: "string option"
  d_upiTransactionId :: "string option"

text \<open>
  The event that \<^verbatim>\<open>updateStatus\<close> builds; \<open>t\<close> is the instant read for its timestamp.
\<close>

definition newEvent :: "UpdateOrderStatusDTO \<Rightarrow> int \<Rightarrow> TimelineEvent" where
  "newEvent dto t =
     \<lparr> e_step = getStepNumber (d_newStatus dto),
       e_status = d_newStatus dto,
       e_label = repo_formatStatusLabel (d_newStatus dto),
       e_completed = True,
       e_active = True,
       e_timestamp = Some t,
       e_actor = Some (d_actor dto),
       e_note = d_note dto \<rparr>"

text \<open>
  \<^verbatim>\<open>updateData\<close> applied to a row: status and history always; the hauler columns when
  \<^verbatim>\<open>haulerInfo\<close> is given (the vehicle only when \<^verbatim>\<open>vehicleType\<close> is a non-empty string);
  \<^verbatim>\<open>eta\<close> when given; \<^verbatim>\<open>delayMinutes\<close> when not \<^verbatim>\<open>undefined\<close>; \<^verbatim>\<open>delayReason\<close> and
  \<^verbatim>\<open>upiTransactionId\<close> when they are non-empty strings.
\<close>

definition truthy :: "string option \<Rightarrow> bool" where
  "truthy s = (case s of None \<Rightarrow> False | Some x \<Rightarrow> x \<noteq> [])"

definition applyHauler :: "HaulerInfo option \<Rightarrow> OrderRow \<Rightarrow> OrderRow" where
  "applyHauler haulerInfo row =
     (case haulerInfo of
        None \<Rightarrow> row
      | Some h \<Rightarrow>
          row\<lparr> o_haulerId := Some (h_id h),
               o_haulerName := Some (h_name h),
               o_haulerPhone := Some (h_phone h),
               o_haulerVehicle :=
                 (if truthy (h_vehicleType h)
                  then Some (the (h_vehicleType h) @ '' '' @
                             (case h_vehicleNumber h of None \<Rightarrow> [] | Some n \<Rightarrow> n))
                  else o_haulerVehicle row) \<rparr>)"

definition applyUpdateData ::
  "UpdateOrderStatusDTO \<Rightarrow> TimelineEvent list \<Rightarrow> OrderRow \<Rightarrow> OrderRow" where
  "applyUpdateData dto history row =
     (let r1 = row\<lparr> o_trackingStatus := d_newStatus dto, o_statusHistory := JArray history \<rparr>;
          r2 = applyHauler (d_haulerInfo dto) r1;
          r3 = (case d_eta dto of None \<Rightarrow> r2 | Some t \<Rightarrow> r2\<lparr> o_eta := Some t \<rparr>);
          r4 = (case d_delayMinutes dto of None \<Rightarrow> r3 | Some n \<Rightarrow> r3\<lparr> o_delayMinutes := Some n \<rparr>);
          r5 = (if truthy (d_delayReason dto) then r4\<lparr> o_delayReason := d_delayReason dto \<rparr> else r4);
          r6 = (if truthy (d_upiTransactionId dto)
                then r5\<lparr> o_upiTransactionId := d_upiTransactionId dto \<rparr> else r5)
      in r6)"

text \<open>
  \<^verbatim>\<open>OrderStatusRepository.updateStatus\<close>. The result is the failure or the order read
  back (\<^verbatim>\<open>findByOrderNumber\<close>, which the source casts to non-null), together with the
  world the call leaves. Calling \<^verbatim>\<open>forEach\<close> on a parsed history that is not an array
  raises \<^verbatim>\<open>TypeError\<close>, after the clock has been read for the event.
\<close>

definition repo_updateStatus ::
  "(string \<Rightarrow> history_json option) \<Rightarrow> UpdateOrderStatusDTO \<Rightarrow> world
     \<Rightarrow> (failure + OrderWithTracking option) \<times> world" where
  "repo_updateStatus JSON_parse dto w =
     (case find (\<lambda>r. o_orderNumber r = d_orderId dto) (order_tbl w) of
        None \<Rightarrow> (Inl (Error (''Order not found: '' @ d_orderId dto)), w)
      | Some current \<Rightarrow>
          (let history = parseStatusHistory JSON_parse (o_statusHistory current);
               ev = newEvent dto (now w);
               w1 = tick w
           in (case history of
                 JArray es \<Rightarrow>
                   (let history' = map (\<lambda>e. e\<lparr> e_active := False \<rparr>) es @ [ev]
                    in (case store_update (\<lambda>r. o_orderNumber r = d_orderId dto)
                                (applyUpdateData dto history') (order_tbl w1) of
                          None \<Rightarrow> (Inl RecordNotFound, w1)
                        | Some (_, tbl) \<Rightarrow>
                            (let w2 = w1\<lparr> order_tbl := tbl \<rparr>
                             in (Inr (findByOrderNumber JSON_parse (d_orderId dto) w2), w2))))
               | _ \<Rightarrow> (Inl TypeError, w1))))"

section \<open>OrderStatusService.updateStatus (src/src/services/order-status.service.ts)\<close>

text \<open>
  The transition operation. The notification and the log line that follow a successful
  update are calls to a logger with no effect on the world and are left out.
\<close>

definition updateStatus ::
  "(string \<Rightarrow> history_json option) \<Rightarrow> UpdateOrderStatusDTO \<Rightarrow> world
     \<Rightarrow> (failure + OrderWithTracking option) \<times> world" where
  "updateStatus JSON_parse dto w =
     (case findByOrderNumber JSON_parse (d_orderId dto) w of
        None \<Rightarrow> (Inl (OrderStatusError ORDER_NOT_FOUND), w)
      | Some current \<Rightarrow>
          (case validateStatusTransition (v_trackingStatus current) (d_newStatus dto) of
             Inl e \<Rightarrow> (Inl e, w)
           | Inr _ \<Rightarrow> repo_updateStatus JSON_parse dto w))"

section \<open>MatchRepository (src/src/repositories/match.repository.ts)\<close>

definition findById :: "string \<Rightarrow> world \<Rightarrow> Match option" where
  "findById ident w = find (\<lambda>m. m_id m = ident) (match_tbl w)"

text \<open>
  The \<^verbatim>\<open>where\<close> clause of \<^verbatim>\<open>findPendingByFarmerId\<close>; \<open>t\<close> is the instant read for
  \<^verbatim>\<open>gt: new Date()\<close>.
\<close>

definition pending_where :: "int \<Rightarrow> int \<Rightarrow> Match \<Rightarrow> bool" where
  "pending_where farmerId t m =
     (m_farmerId m = farmerId \<and> m_status m = PENDING_ACCEPTANCE \<and> m_expiresAt m > t)"

text \<open>
  \<^verbatim>\<open>findPendingByFarmerId\<close>: filter, order by \<^verbatim>\<open>expiresAt\<close> ascending, skip
  \<open>offset\<close>, take \<open>limit\<close>. Rows with equal \<^verbatim>\<open>expiresAt\<close> keep their scan order here;
  the store leaves their order open.
\<close>

definition findPendingByFarmerId :: "int \<Rightarrow> nat \<Rightarrow> nat \<Rightarrow> world \<Rightarrow> Match list \<times> world" where
  "findPendingByFarmerId farmerId limit offset w =
     (take limit (drop offset
        (sort_key m_expiresAt (filter (pending_where farmerId (now w)) (match_tbl w)))),
      tick w)"

text \<open>
  The optional \<^verbatim>\<open>details\<close> argument of \<^verbatim>\<open>updateStatus\<close>.
\<close>

record StatusDetails =
  sd_rejectionReason :: "string option"
  sd_orderId :: "string option"

text \<open>
  \<^verbatim>\<open>updateData\<close> of \<^verbatim>\<open>MatchRepository.updateStatus\<close> applied to a row. \<open>t_updated\<close> is
  the instant read for \<^verbatim>\<open>updatedAt\<close>, \<open>t_stamp\<close> the one read for \<^verbatim>\<open>acceptedAt\<close> or
  \<^verbatim>\<open>rejectedAt\<close>. \<^verbatim>\<open>orderId\<close> and \<^verbatim>\<open>rejectionReason\<close> are written only when they are
  non-empty strings (\<^verbatim>\<open>if (details?.orderId)\<close>).
\<close>

definition match_updateData ::
  "MatchStatus \<Rightarrow> StatusDetails option \<Rightarrow> int \<Rightarrow> int \<Rightarrow> Match \<Rightarrow> Match" where
  "match_updateData status details t_updated t_stamp row =
     (let r1 = row\<lparr> m_status := status, m_updatedAt := t_updated \<rparr>
      in if status = ACCEPTED then
           (let r2 = r1\<lparr> m_acceptedAt := Some t_stamp \<rparr>;
                oid = (case details of None \<Rightarrow> None | Some d \<Rightarrow> sd_orderId d)
            in if truthy oid then r2\<lparr> m_orderId := oid \<rparr> else r2)
         else if status = REJECTED then
           (let r2 = r1\<lparr> m_rejectedAt := Some t_stamp \<rparr>;
                rr = (case details of None \<Rightarrow> None | Some d \<Rightarrow> sd_rejectionReason d)
            in if truthy rr then r2\<lparr> m_rejectionReason := rr \<rparr> else r2)
         else r1)"

text \<open>
  \<^verbatim>\<open>MatchRepository.updateStatus\<close>: the clock is read once for \<^verbatim>\<open>updatedAt\<close> and, for
  \<^verbatim>\<open>ACCEPTED\<close> and \<^verbatim>\<open>REJECTED\<close>, once more for the stamp; then the row is updated.
\<close>

definition match_updateStatus ::
  "string \<Rightarrow> MatchStatus \<Rightarrow> StatusDetails option \<Rightarrow> world \<Rightarrow> (failure + Match) \<times> world" where
  "match_updateStatus ident status details w =
     (let t_updated = now w;
          w1 = tick w;
          t_stamp = now w1;
          w2 = (if status = ACCEPTED \<or> status = REJECTED then tick w1 else w1)
      in (case store_update (\<lambda>m. m_id m = ident)
                 (match_updateData status details t_updated t_stamp) (match_tbl w2) of
            None \<Rightarrow> (Inl RecordNotFound, w2)
          | Some (row, tbl) \<Rightarrow> (Inr row, w2\<lparr> match_tbl := tbl \<rparr>)))"

text \<open>
  The \<^verbatim>\<open>where\<close> clause of \<^verbatim>\<open>findExpiredPendingMatches\<close>; \<open>t\<close> is the instant read for
  \<^verbatim>\<open>lte: new Date()\<close>.
\<close>

definition expired_where :: "int \<Rightarrow> Match \<Rightarrow> bool" where
  "expired_where t m = (m_status m = PENDING_ACCEPTANCE \<and> m_expiresAt m \<le> t)"

definition findExpiredPendingMatches :: "world \<Rightarrow> Match list \<times> world" where
  "findExpiredPendingMatches w =
     (take 100 (filter (expired_where (now w)) (match_tbl w)), tick w)"

text \<open>
  What one step of the expiry sweep does to a row: the status becomes \<^verbatim>\<open>EXPIRED\<close>,
  \<^verbatim>\<open>updatedAt\<close> is whatever the new row has, and every other field is kept.
\<close>

definition expired_row :: "Match \<Rightarrow> Match \<Rightarrow> bool" where
  "expired_row m m' \<longleftrightarrow> m' = m\<lparr> m_status := EXPIRED, m_updatedAt := m_updatedAt m' \<rparr>"

section \<open>MatchService (services/match.service.ts, second part of src/src/services/rating.service.ts)\<close>

definition getPendingMatches :: "int \<Rightarrow> world \<Rightarrow> Match list \<times> world" where
  "getPendingMatches farmerId w = findPendingByFarmerId farmerId 10 0 w"

text \<open>
  The decimal digits of a number, for the template string \<^verbatim>\<open>`ord-${Date.now()}`\<close>.
\<close>

fun digits :: "nat \<Rightarrow> string" where
  "digits n =
     (if n < 10 then [''0123456789'' ! n]
      else digits (n div 10) @ [''0123456789'' ! (n mod 10)])"

declare digits.simps [simp del]

definition decimal :: "int \<Rightarrow> string" where
  "decimal i = (if i < 0 then ''-'' @ digits (nat (- i)) else digits (nat i))"

fun MatchStatus_string :: "MatchStatus \<Rightarrow> string" where
  "MatchStatus_string PENDING_ACCEPTANCE = ''PENDING_ACCEPTANCE''"
| "MatchStatus_string ACCEPTED = ''ACCEPTED''"
| "MatchStatus_string REJECTED = ''REJECTED''"
| "MatchStatus_string EXPIRED = ''EXPIRED''"

text \<open>
  \<^verbatim>\<open>acceptMatch\<close>. \<open>isPartial\<close> and \<open>acceptedQuantity\<close> are accepted and not used, as in
  the source. The clock is read for the expiry test, then for the order id, then by the
  repository.
\<close>

definition acceptMatch ::
  "string \<Rightarrow> bool \<Rightarrow> int option \<Rightarrow> world \<Rightarrow> (failure + Match) \<times> world" where
  "acceptMatch matchId isPartial acceptedQuantity w =
     (case findById matchId w of
        None \<Rightarrow> (Inl (Error ''Match not found''), w)
      | Some match \<Rightarrow>
          if m_status match \<noteq> PENDING_ACCEPTANCE
          then (Inl (Error ''Match is no longer pending acceptance''), w)
          else
            (let t = now w; w1 = tick w
             in if t > m_expiresAt match
                then (case match_updateStatus matchId EXPIRED None w1 of
                        (Inl e, w2) \<Rightarrow> (Inl e, w2)
                      | (Inr _, w2) \<Rightarrow> (Inl (Error ''Match has expired''), w2))
                else
                  (let mockOrderId = ''ord-'' @ decimal (now w1); w2 = tick w1
                   in match_updateStatus matchId ACCEPTED
                        (Some \<lparr> sd_rejectionReason = None, sd_orderId = Some mockOrderId \<rparr>) w2)))"

definition rejectMatch :: "string \<Rightarrow> string \<Rightarrow> world \<Rightarrow> (failure + Match) \<times> world" where
  "rejectMatch matchId reason w =
     (case findById matchId w of
        None \<Rightarrow> (Inl (Error ''Match not found''), w)
      | Some match \<Rightarrow>
          if m_status match \<noteq> PENDING_ACCEPTANCE \<and> m_status match \<noteq> EXPIRED
          then (Inl (Error (''Match is '' @ MatchStatus_string (m_status match)
                              @ '' and cannot be rejected'')), w)
          else match_updateStatus matchId REJECTED
                 (Some \<lparr> sd_rejectionReason = Some reason, sd_orderId = None \<rparr>) w)"

text \<open>
  The loop of \<^verbatim>\<open>expireMatches\<close>: one \<^verbatim>\<open>updateStatus\<close> per selected match, counting; a
  failing update ends the sweep with that failure.
\<close>

fun expire_loop :: "Match list \<Rightarrow> nat \<Rightarrow> world \<Rightarrow> (failure + nat) \<times> world" where
  "expire_loop [] count w = (Inr count, w)"
| "expire_loop (match # rest) count w =
     (case match_updateStatus (m_id match) EXPIRED None w of
        (Inl e, w1) \<Rightarrow> (Inl e, w1)
      | (Inr _, w1) \<Rightarrow> expire_loop rest (count + 1) w1)"

definition expireMatches :: "world \<Rightarrow> (failure + nat) \<times> world" where
  "expireMatches w =
     (case findExpiredPendingMatches w of
        (expiredMatches, w1) \<Rightarrow> expire_loop expiredMatches 0 w1)"

section \<open>Transactions (order-status.repository.ts; TransactionService, src/unnamed/part_002)\<close>

definition msPerDay :: int where
  "msPerDay = 1000 * 60 * 60 * 24"

text \<open>
  \<^verbatim>\<open>getTransactionDetails\<close>: the \<^verbatim>\<open>where\<close> clause of its \<^verbatim>\<open>findFirst\<close>, then its
  locals \<^verbatim>\<open>paidDate\<close>, \<^verbatim>\<open>daysSincePaid\<close> (\<open>t\<close> is \<^verbatim>\<open>Date.now()\<close>),
  \<^verbatim>\<open>canDownloadReceipt\<close> and \<^verbatim>\<open>maskedUpiId\<close>.

  The difference of two instants and the bound 91 days are integers that the runtime's
  numbers hold exactly, and its division is rounded to the nearest number, so
  \<^verbatim>\<open>Math.floor\<close> of the quotient is at most 90 exactly when the integer quotient is:
  \<open>div\<close> on \<open>int\<close> rounds down, as \<^verbatim>\<open>Math.floor\<close> does. A string is the list of its
  code units, which is what \<^verbatim>\<open>length\<close> and \<^verbatim>\<open>slice\<close> count.
\<close>

definition transaction_where :: "string \<Rightarrow> int \<Rightarrow> OrderRow \<Rightarrow> bool" where
  "transaction_where orderId farmerId r =
     (o_orderNumber r = orderId \<and> o_farmerId r = farmerId \<and> o_deletedAt r = None
      \<and> o_trackingStatus r \<in> set [PAID, DELIVERED])"

definition paidDate :: "OrderRow \<Rightarrow> int" where
  "paidDate order = (case o_paidAt order of None \<Rightarrow> o_updatedAt order | Some p \<Rightarrow> p)"

definition daysSincePaid :: "int \<Rightarrow> OrderRow \<Rightarrow> int" where
  "daysSincePaid t order = (t - paidDate order) div msPerDay"

definition canDownloadReceipt :: "int \<Rightarrow> OrderRow \<Rightarrow> bool" where
  "canDownloadReceipt t order = (daysSincePaid t order \<le> 90)"

definition maskedUpiId :: "OrderRow \<Rightarrow> string" where
  "maskedUpiId order =
     (let upiId = (case o_upiTransactionId order of None \<Rightarrow> [] | Some u \<Rightarrow> u)
      in if length upiId > 8 then ''****'' @ drop (length upiId - 8) upiId else upiId)"

text \<open>
  \<^verbatim>\<open>TransactionDetails\<close> without the listing, buyer, drop point and hauler summaries and
  without the three amounts of the payment breakdown.
\<close>

record TransactionDetails =
  td_id :: string
  td_timeline :: history_json
  td_platformFee :: int
  td_upiTxnId :: string
  td_paidAt :: "int option"
  td_createdAt :: int
  td_canDownloadReceipt :: bool

definition getTransactionDetails ::
  "(string \<Rightarrow> history_json option) \<Rightarrow> string \<Rightarrow> int \<Rightarrow> world
     \<Rightarrow> TransactionDetails option \<times> world" where
  "getTransactionDetails JSON_parse orderId farmerId w =
     (case find (transaction_where orderId farmerId) (order_tbl w) of
        None \<Rightarrow> (None, w)
      | Some order \<Rightarrow>
          (Some \<lparr> td_id = o_orderNumber order,
                  td_timeline = parseStatusHistory JSON_parse (o_statusHistory order),
                  td_platformFee = 0,
                  td_upiTxnId = maskedUpiId order,
                  td_paidAt = o_paidAt order,
                  td_createdAt = o_createdAt order,
                  td_canDownloadReceipt = canDownloadReceipt (now w) order \<rparr>,
           tick w))"

text \<open>
  The runtime's calendar arithmetic \<^verbatim>\<open>d.setDate(d.getDate() + k)\<close>. \<open>LocalTZA t isUTC\<close>
  is the offset of the process's time zone, a parameter as in the language definition:
  the instant is taken to local time, the date moves by \<open>k\<close> days with the time of day
  kept, and the result is taken back.
\<close>

definition LocalTime :: "(int \<Rightarrow> bool \<Rightarrow> int) \<Rightarrow> int \<Rightarrow> int" where
  "LocalTime LocalTZA t = t + LocalTZA t True"

definition UTC :: "(int \<Rightarrow> bool \<Rightarrow> int) \<Rightarrow> int \<Rightarrow> int" where
  "UTC LocalTZA t = t - LocalTZA t False"

definition setDate_plus :: "(int \<Rightarrow> bool \<Rightarrow> int) \<Rightarrow> int \<Rightarrow> int \<Rightarrow> int" where
  "setDate_plus LocalTZA k t = UTC LocalTZA (LocalTime LocalTZA t + k * msPerDay)"

datatype status_filter = completed | pending | all_statuses

datatype sort_by = by_date | by_amount | by_crop

datatype sort_order = asc | desc

record TransactionFilter =
  f_farmerId :: int
  f_status :: "status_filter option"
  f_fromDate :: "int option"
  f_toDate :: "int option"
  f_cropType :: "string option"
  f_sortBy :: "sort_by option"
  f_sortOrder :: "sort_order option"
  f_page :: "int option"
  f_limit :: "int option"

text \<open>
  The \<^verbatim>\<open>where\<close> object that \<^verbatim>\<open>OrderStatusRepository.getTransactions\<close> builds. The
  three spreads that set \<^verbatim>\<open>createdAt\<close> are applied in the source's order, a later one
  replacing the key. \<^verbatim>\<open>defaultFromDate\<close> is computed from the clock on every call.
\<close>

record DateFilter =
  gte :: "int option"
  lte :: "int option"

record OrderWhere =
  w_farmerId :: int
  w_deletedAt_null :: bool
  w_trackingStatus_in :: "OrderTrackingStatus list"
  w_createdAt :: "DateFilter option"
  w_cropType_contains :: "string option"

definition getTransactions_where ::
  "(int \<Rightarrow> bool \<Rightarrow> int) \<Rightarrow> TransactionFilter \<Rightarrow> world \<Rightarrow> OrderWhere \<times> world" where
  "getTransactions_where LocalTZA flt w =
     (let status = (case f_status flt of None \<Rightarrow> all_statuses | Some s \<Rightarrow> s);
          trackingStatusFilter =
            (if status = completed then Some [PAID]
             else if status = pending then Some [DELIVERED] else None);
          defaultFromDate = setDate_plus LocalTZA (- 90) (now w);
          c1 = (case f_fromDate flt of
                  None \<Rightarrow> None | Some d \<Rightarrow> Some \<lparr> gte = Some d, lte = None \<rparr>);
          c2 = (case f_toDate flt of
                  None \<Rightarrow> c1 | Some d \<Rightarrow> Some \<lparr> gte = None, lte = Some d \<rparr>);
          c3 = (if f_fromDate flt = None \<and> f_toDate flt = None
                then Some \<lparr> gte = Some defaultFromDate, lte = None \<rparr> else c2)
      in (\<lparr> w_farmerId = f_farmerId flt,
            w_deletedAt_null = True,
            w_trackingStatus_in =
              (case trackingStatusFilter of None \<Rightarrow> [PAID, DELIVERED] | Some l \<Rightarrow> l),
            w_createdAt = c3,
            w_cropType_contains =
              (if truthy (f_cropType flt) then f_cropType flt else None) \<rparr>,
          tick w))"

text \<open>
  \<^verbatim>\<open>TransactionService.getTransactions\<close>. \<open>repo_getTransactions\<close> is the repository
  method it delegates to, a parameter: the service's outcome is whatever the repository
  returns for the filter it is handed.
\<close>

definition service_validateFarmerId :: "int \<Rightarrow> failure + unit" where
  "service_validateFarmerId farmerId =
     (if farmerId = 0 \<or> farmerId \<le> 0 then Inl (TransactionError INVALID_FARMER_ID)
      else Inr ())"

definition appliedFilter ::
  "(int \<Rightarrow> bool \<Rightarrow> int) \<Rightarrow> TransactionFilter \<Rightarrow> world \<Rightarrow> TransactionFilter \<times> world" where
  "appliedFilter LocalTZA flt w =
     (if f_fromDate flt = None \<and> f_toDate flt = None
      then (let ninetyDaysAgo = setDate_plus LocalTZA (- 90) (now w)
            in (flt\<lparr> f_fromDate := Some ninetyDaysAgo \<rparr>, tick w))
      else (flt, w))"

definition service_getTransactions ::
  "(int \<Rightarrow> bool \<Rightarrow> int) \<Rightarrow> (TransactionFilter \<Rightarrow> world \<Rightarrow> 'r \<times> world)
     \<Rightarrow> TransactionFilter \<Rightarrow> world \<Rightarrow> (failure + 'r) \<times> world" where
  "service_getTransactions LocalTZA repo_getTransactions flt w =
     (case service_validateFarmerId (f_farmerId flt) of
        Inl e \<Rightarrow> (Inl e, w)
      | Inr _ \<Rightarrow>
          (case appliedFilter LocalTZA flt w of
             (applied, w1) \<Rightarrow>
               (case repo_getTransactions applied w1 of
                  (result, w2) \<Rightarrow> (Inr result, w2))))"

section \<open>Example worlds\<close>

text \<open>
  Concrete inputs on which the theorems below are instantiated. The example runtime's
  \<^verbatim>\<open>JSON.parse\<close> throws on every string; the example clock returns 5000, 5001, ...
\<close>

definition ex_JSON_parse :: "string \<Rightarrow> history_json option" where
  "ex_JSON_parse s = None"

definition ex_order :: OrderRow where
  "ex_order =
     \<lparr> o_orderNumber = ''ORD-1'', o_farmerId = 1001, o_trackingStatus = LISTED,
       o_statusHistory = JArray
         [\<lparr> e_step = 1, e_status = LISTED, e_label = ''Listed'', e_completed = True,
            e_active = True, e_timestamp = Some 1000, e_actor = Some ''system'',
            e_note = None \<rparr>],
       o_eta = None, o_delayMinutes = None, o_delayReason = None,
       o_upiTransactionId = None, o_haulerId = None, o_haulerName = None,
       o_haulerPhone = None, o_haulerVehicle = None, o_createdAt = 1000,
       o_updatedAt = 1000, o_paidAt = None, o_deletedAt = None \<rparr>"

definition ex_world :: world where
  "ex_world =
     \<lparr> order_tbl = [ex_order], match_tbl = [], clock = (\<lambda>k. 5000 + int k), reads = 0 \<rparr>"

definition ex_dto :: "OrderTrackingStatus \<Rightarrow> UpdateOrderStatusDTO" where
  "ex_dto s =
     \<lparr> d_orderId = ''ORD-1'', d_newStatus = s, d_actor = ''matcher'', d_note = Some ''ok'',
       d_haulerInfo = None, d_eta = None, d_delayMinutes = None, d_delayReason = None,
       d_upiTransactionId = None \<rparr>"

definition ex_history_after :: "TimelineEvent list" where
  "ex_history_after =
     [\<lparr> e_step = 1, e_status = LISTED, e_label = ''Listed'', e_completed = True,
        e_active = False, e_timestamp = Some 1000, e_actor = Some ''system'',
        e_note = None \<rparr>,
      \<lparr> e_step = 2, e_status = MATCHED, e_label = ''Matched'', e_completed = True,
        e_active = True, e_timestamp = Some 5000, e_actor = Some ''matcher'',
        e_note = Some ''ok'' \<rparr>]"

definition ex_world_after :: world where
  "ex_world_after =
     ex_world\<lparr> order_tbl :=
                  [ex_order\<lparr> o_trackingStatus := MATCHED,
                            o_statusHistory := JArray ex_history_after \<rparr>],
               reads := 1 \<rparr>"

definition ex_match :: "MatchStatus \<Rightarrow> int \<Rightarrow> Match" where
  "ex_match st t =
     \<lparr> m_id = ''m1'', m_listingId = ''l1'', m_farmerId = 1001, m_orderId = None,
       m_status = st, m_rejectionReason = None, m_expiresAt = t, m_acceptedAt = None,
       m_rejectedAt = None, m_createdAt = 0, m_updatedAt = 0 \<rparr>"

definition ex_mworld :: "MatchStatus \<Rightarrow> int \<Rightarrow> world" where
  "ex_mworld st t =
     \<lparr> order_tbl = [], match_tbl = [ex_match st t], clock = (\<lambda>k. 5000 + int k), reads = 0 \<rparr>"

definition ex_two :: world where
  "ex_two =
     \<lparr> order_tbl = [],
       match_tbl = [ex_match PENDING_ACCEPTANCE 4000,
                    (ex_match PENDING_ACCEPTANCE 9000)\<lparr> m_id := ''m2'' \<rparr>],
       clock = (\<lambda>k. 5000 + int k), reads = 0 \<rparr>"

definition ex_two_after :: world where
  "ex_two_after =
     ex_two\<lparr> match_tbl := [(ex_match EXPIRED 4000)\<lparr> m_updatedAt := 5001 \<rparr>,
                           (ex_match PENDING_ACCEPTANCE 9000)\<lparr> m_id := ''m2'' \<rparr>],
             reads := 2 \<rparr>"

text \<open>
  A table of 101 pending matches, all due, under a clock that stands still.
\<close>

definition ex_sweep_row :: "nat \<Rightarrow> Match" where
  "ex_sweep_row i =
     \<lparr> m_id = digits i, m_listingId = ''l'', m_farmerId = 1001, m_orderId = None,
       m_status = PENDING_ACCEPTANCE, m_rejectionReason = None, m_expiresAt = 0,
       m_acceptedAt = None, m_rejectedAt = None, m_createdAt = 0, m_updatedAt = 0 \<rparr>"

definition ex_sweep_world :: world where
  "ex_sweep_world =
     \<lparr> order_tbl = [], match_tbl = map ex_sweep_row [0..<101], clock = (\<lambda>k. 1000), reads = 0 \<rparr>"

definition ex_paid_order :: "int \<Rightarrow> string option \<Rightarrow> OrderRow" where
  "ex_paid_order paid upi =
     ex_order\<lparr> o_trackingStatus := PAID, o_paidAt := Some paid, o_upiTransactionId := upi \<rparr>"

definition ex_paid_world :: "int \<Rightarrow> string option \<Rightarrow> world" where
  "ex_paid_world paid upi =
     \<lparr> order_tbl = [ex_paid_order paid upi], match_tbl = [],
       clock = (\<lambda>k. 10000000000 + int k), reads = 0 \<rparr>"

definition ex_filter :: "int option \<Rightarrow> int option \<Rightarrow> TransactionFilter" where
  "ex_filter from to =
     \<lparr> f_farmerId = 1001, f_status = None, f_fromDate = from, f_toDate = to,
       f_cropType = None, f_sortBy = None, f_sortOrder = None, f_page = None,
       f_limit = None \<rparr>"

definition ex_LocalTZA :: "int \<Rightarrow> bool \<Rightarrow> int" where
  "ex_LocalTZA t isUTC = 19800000"

text \<open>
  A zone with daylight saving, as New York's: four hours behind UTC before the switch,
  five hours behind after it. The example instant is ten days after the switch.
\<close>

definition ex_dst_LocalTZA :: "int \<Rightarrow> bool \<Rightarrow> int" where
  "ex_dst_LocalTZA t isUTC = (if t < 1000000000000 then - 14400000 else - 18000000)"

definition ex_dst_world :: world where
  "ex_dst_world =
     \<lparr> order_tbl = [], match_tbl = [], clock = (\<lambda>k. 1000864000000), reads = 0 \<rparr>"

section \<open>Properties\<close>

subsection \<open>The transition table\<close>


subsection \<open>The store\<close>

lemma find_replace_first:
  "(\<And>x. P x \<Longrightarrow> P (f x)) \<Longrightarrow> find P (replace_first P f xs) = map_option f (find P xs)"
  by (induction xs) auto

lemma store_update_Some:
  assumes "store_update P f xs = Some (r, ys)" and "\<And>x. P x \<Longrightarrow> P (f x)"
  shows "\<exists>row. find P xs = Some row \<and> r = f row \<and> find P ys = Some (f row)"
  using assms find_replace_first[of P f xs]
  by (auto simp: store_update_def split: option.splits)

lemma store_update_None: "store_update P f xs = None \<longleftrightarrow> find P xs = None"
  by (simp add: store_update_def split: option.splits)

subsection \<open>Order transitions\<close>

lemma applyUpdateData_fields:
  "o_orderNumber (applyUpdateData dto h row) = o_orderNumber row"
  "o_trackingStatus (applyUpdateData dto h row) = d_newStatus dto"
  "o_statusHistory (applyUpdateData dto h row) = JArray h"
  by (simp_all add: applyUpdateData_def applyHauler_def Let_def split: option.splits)

lemma parseStatusHistory_JArray: "parseStatusHistory jp (JArray es) = JArray es"
  by (simp add: parseStatusHistory_def)

lemma repo_updateStatus_success:
  assumes "repo_updateStatus jp dto w = (Inr res, w')"
  shows "\<exists>row es. find (\<lambda>r. o_orderNumber r = d_orderId dto) (order_tbl w) = Some row
     \<and> parseStatusHistory jp (o_statusHistory row) = JArray es
     \<and> find (\<lambda>r. o_orderNumber r = d_orderId dto) (order_tbl w')
         = Some (applyUpdateData dto
                   (map (\<lambda>e. e\<lparr> e_active := False \<rparr>) es @ [newEvent dto (now w)]) row)
     \<and> res = findByOrderNumber jp (d_orderId dto) w'"
  using assms
  unfolding repo_updateStatus_def Let_def
  by (auto split: option.splits history_json.splits simp: tick_def
        dest!: store_update_Some[where f="applyUpdateData dto _"] simp: applyUpdateData_fields)

lemma updateStatus_success_repo:
  "updateStatus jp dto w = (Inr res, w') \<Longrightarrow> repo_updateStatus jp dto w = (Inr res, w')"
  by (auto simp: updateStatus_def split: option.splits sum.splits)

lemma filter_deactivated: "filter e_active (map (\<lambda>e. e\<lparr> e_active := False \<rparr>) es) = []"
  by (induction es) auto

text \<open>
  C2. A successful transition (through the service, or through the repository's
  \<^verbatim>\<open>updateStatus\<close> alone) turns the history \<open>es\<close> that the order showed before into
  \<open>es\<close> with every event made inactive, followed by one new event. The new event has the
  step of the new status, is active and completed, carries the instant read from the
  clock and the actor and note of the request, and is the only active event; the history
  is one longer. The order read back after the call shows this history and the new status.
\<close>

theorem updateStatus_appends_event:
  assumes "updateStatus jp dto w = (Inr res, w') \<or> repo_updateStatus jp dto w = (Inr res, w')"
  shows "\<exists>before es after.
           findByOrderNumber jp (d_orderId dto) w = Some before
         \<and> v_statusHistory before = JArray es
         \<and> res = Some after
         \<and> findByOrderNumber jp (d_orderId dto) w' = Some after
         \<and> v_trackingStatus after = d_newStatus dto
         \<and> v_statusHistory after =
             JArray (map (\<lambda>e. e\<lparr> e_active := False \<rparr>) es @ [newEvent dto (now w)])
         \<and> length (map (\<lambda>e. e\<lparr> e_active := False \<rparr>) es @ [newEvent dto (now w)])
             = length es + 1
         \<and> filter e_active (map (\<lambda>e. e\<lparr> e_active := False \<rparr>) es @ [newEvent dto (now w)])
             = [newEvent dto (now w)]
         \<and> e_step (newEvent dto (now w)) = getStatusStep (d_newStatus dto)
         \<and> e_active (newEvent dto (now w))
         \<and> e_completed (newEvent dto (now w))
         \<and> e_timestamp (newEvent dto (now w)) = Some (now w)
         \<and> e_actor (newEvent dto (now w)) = Some (d_actor dto)
         \<and> e_note (newEvent dto (now w)) = d_note dto"
proof -
  from assms have "repo_updateStatus jp dto w = (Inr res, w')"
    by (auto dest: updateStatus_success_repo)
  from repo_updateStatus_success[OF this]
  obtain row es where
    r: "find (\<lambda>r. o_orderNumber r = d_orderId dto) (order_tbl w) = Some row"
    and p: "parseStatusHistory jp (o_statusHistory row) = JArray es"
    and r': "find (\<lambda>r. o_orderNumber r = d_orderId dto) (order_tbl w')
         = Some (applyUpdateData dto
                   (map (\<lambda>e. e\<lparr> e_active := False \<rparr>) es @ [newEvent dto (now w)]) row)"
    and res: "res = findByOrderNumber jp (d_orderId dto) w'"
    by blast
  have step: "e_step (newEvent dto (now w)) = getStatusStep (d_newStatus dto)"
    by (cases "d_newStatus dto") (simp_all add: newEvent_def)
  have ev: "e_active (newEvent dto (now w))" "e_completed (newEvent dto (now w))"
    "e_timestamp (newEvent dto (now w)) = Some (now w)"
    "e_actor (newEvent dto (now w)) = Some (d_actor dto)"
    "e_note (newEvent dto (now w)) = d_note dto"
    by (simp_all add: newEvent_def)
  have flt: "filter e_active (map (\<lambda>e. e\<lparr> e_active := False \<rparr>) es @ [newEvent dto (now w)])
             = [newEvent dto (now w)]"
    by (simp add: filter_deactivated ev)
  show ?thesis
    using r p r' res step ev flt
    by (simp add: findByOrderNumber_def applyUpdateData_fields parseStatusHistory_JArray)
qed

theorem updateStatus_appends_event_witness:
  "updateStatus ex_JSON_parse (ex_dto MATCHED) ex_world
     = (Inr (findByOrderNumber ex_JSON_parse ''ORD-1'' ex_world_after), ex_world_after)
   \<and> map_option v_statusHistory (findByOrderNumber ex_JSON_parse ''ORD-1'' ex_world_after)
     = Some (JArray ex_history_after)
   \<and> filter e_active ex_history_after = [last ex_history_after]
   \<and> length ex_history_after = 2"
proof -
  have h: "updateStatus ex_JSON_parse (ex_dto MATCHED) ex_world
     = (Inr (findByOrderNumber ex_JSON_parse ''ORD-1'' ex_world_after), ex_world_after)"
    by (simp add: ex_JSON_parse_def ex_order_def ex_world_def ex_dto_def
          ex_history_after_def ex_world_after_def updateStatus_def repo_updateStatus_def
          findByOrderNumber_def validateStatusTransition_def isValidTransition_def
          parseStatusHistory_def newEvent_def applyUpdateData_def applyHauler_def
          truthy_def now_def tick_def store_update_def Let_def)
  from updateStatus_appends_event[OF disjI1[OF h]] show ?thesis
    using h
    by (auto simp: ex_JSON_parse_def ex_order_def ex_world_def ex_dto_def
          ex_history_after_def ex_world_after_def findByOrderNumber_def
          parseStatusHistory_def)
qed

text \<open>
  C6. A transition that fails leaves the order table as it was, so every order reads
  back as before: no event is appended and no status is changed. When the failure is one
  of \<^verbatim>\<open>ORDER_NOT_FOUND\<close>, \<^verbatim>\<open>ALREADY_IN_STATUS\<close>, \<^verbatim>\<open>INVALID_TRANSITION\<close> the whole world
  is as it was (not even the clock has been read).
\<close>

theorem updateStatus_failure_atomic:
  assumes "updateStatus jp dto w = (Inl e, w')"
  shows "order_tbl w' = order_tbl w
       \<and> findByOrderNumber jp oid w' = findByOrderNumber jp oid w
       \<and> (e \<in> {OrderStatusError ORDER_NOT_FOUND, OrderStatusError ALREADY_IN_STATUS,
                OrderStatusError INVALID_TRANSITION} \<longrightarrow> w' = w)"
proof -
  have tbl: "order_tbl w' = order_tbl w \<and> (\<forall>c. e = OrderStatusError c \<longrightarrow> w' = w)"
    using assms
    by (auto simp: updateStatus_def repo_updateStatus_def Let_def tick_def
          validateStatusTransition_def store_update_def
          split: option.splits sum.splits history_json.splits if_splits)
  then show ?thesis by (auto simp: findByOrderNumber_def)
qed

theorem updateStatus_failure_atomic_witness:
  "updateStatus ex_JSON_parse (ex_dto DELIVERED) ex_world
     = (Inl (OrderStatusError INVALID_TRANSITION), ex_world)
   \<and> updateStatus ex_JSON_parse (ex_dto LISTED) ex_world
     = (Inl (OrderStatusError ALREADY_IN_STATUS), ex_world)
   \<and> updateStatus ex_JSON_parse ((ex_dto MATCHED)\<lparr> d_orderId := ''ORD-2'' \<rparr>) ex_world
     = (Inl (OrderStatusError ORDER_NOT_FOUND), ex_world)
   \<and> order_tbl ex_world = [ex_order]
   \<and> map_option v_trackingStatus (findByOrderNumber ex_JSON_parse ''ORD-1'' ex_world)
     = Some LISTED"
proof -
  have h1: "updateStatus ex_JSON_parse (ex_dto DELIVERED) ex_world
     = (Inl (OrderStatusError INVALID_TRANSITION), ex_world)"
    and h2: "updateStatus ex_JSON_parse (ex_dto LISTED) ex_world
     = (Inl (OrderStatusError ALREADY_IN_STATUS), ex_world)"
    and h3: "updateStatus ex_JSON_parse ((ex_dto MATCHED)\<lparr> d_orderId := ''ORD-2'' \<rparr>) ex_world
     = (Inl (OrderStatusError ORDER_NOT_FOUND), ex_world)"
    by (simp_all add: ex_JSON_parse_def ex_order_def ex_world_def ex_dto_def
          updateStatus_def findByOrderNumber_def validateStatusTransition_def
          isValidTransition_def parseStatusHistory_def)
  from updateStatus_failure_atomic[OF h1, of "''ORD-1''"]
    updateStatus_failure_atomic[OF h2, of "''ORD-1''"]
    updateStatus_failure_atomic[OF h3, of "''ORD-1''"]
  show ?thesis
    using h1 h2 h3
    by (simp add: ex_JSON_parse_def ex_order_def ex_world_def findByOrderNumber_def
          parseStatusHistory_def)
qed

subsection \<open>Matches\<close>

lemma match_updateData_id: "m_id (match_updateData st d t1 t2 row) = m_id row"
  by (simp add: match_updateData_def Let_def)

lemma findById_tick: "findById k (tick w) = findById k w"
  by (simp add: findById_def tick_def)

lemma match_updateStatus_eq:
  assumes "findById ident w = Some m"
  shows "match_updateStatus ident st d w =
           (Inr (match_updateData st d (now w) (now (tick w)) m),
            (if st = ACCEPTED \<or> st = REJECTED then tick (tick w) else tick w)
              \<lparr> match_tbl := replace_first (\<lambda>m. m_id m = ident)
                    (match_updateData st d (now w) (now (tick w))) (match_tbl w) \<rparr>)"
  using assms
  by (simp add: match_updateStatus_def findById_def store_update_def Let_def tick_def)

lemma findById_replaced:
  "findById ident (w'\<lparr> match_tbl := replace_first (\<lambda>m. m_id m = ident)
                    (match_updateData st d t1 t2) tbl \<rparr>)
     = map_option (match_updateData st d t1 t2) (find (\<lambda>m. m_id m = ident) tbl)"
  by (simp add: findById_def find_replace_first match_updateData_id)

text \<open>
  C3. Accepting a match: \<^verbatim>\<open>Match not found\<close> when the match is absent and
  \<^verbatim>\<open>Match is no longer pending acceptance\<close> when its status is not
  \<^verbatim>\<open>PENDING_ACCEPTANCE\<close>, both with the world untouched; \<^verbatim>\<open>Match has expired\<close> when
  it is pending and the instant read is after \<^verbatim>\<open>expiresAt\<close>, and then the stored match
  has become \<^verbatim>\<open>EXPIRED\<close>; otherwise success, and the match returned and stored is
  \<^verbatim>\<open>ACCEPTED\<close>, has \<^verbatim>\<open>acceptedAt\<close> stamped from the clock and an \<^verbatim>\<open>orderId\<close> that is
  a non-empty string.
\<close>

theorem acceptMatch_outcome:
  "(findById matchId w = None \<longrightarrow>
      acceptMatch matchId p q w = (Inl (Error ''Match not found''), w))
 \<and> (\<forall>m. findById matchId w = Some m \<longrightarrow>
      (m_status m \<noteq> PENDING_ACCEPTANCE \<longrightarrow>
         acceptMatch matchId p q w = (Inl (Error ''Match is no longer pending acceptance''), w))
    \<and> (m_status m = PENDING_ACCEPTANCE \<and> now w > m_expiresAt m \<longrightarrow>
         fst (acceptMatch matchId p q w) = Inl (Error ''Match has expired'')
       \<and> findById matchId (snd (acceptMatch matchId p q w))
           = Some (m\<lparr> m_status := EXPIRED, m_updatedAt := clock w (reads w + 1) \<rparr>))
    \<and> (m_status m = PENDING_ACCEPTANCE \<and> \<not> now w > m_expiresAt m \<longrightarrow>
         (\<exists>m'. fst (acceptMatch matchId p q w) = Inr m'
             \<and> findById matchId (snd (acceptMatch matchId p q w)) = Some m'
             \<and> m' = m\<lparr> m_status := ACCEPTED,
                       m_updatedAt := clock w (reads w + 2),
                       m_acceptedAt := Some (clock w (reads w + 3)),
                       m_orderId := Some (''ord-'' @ decimal (clock w (reads w + 1))) \<rparr>
             \<and> m_orderId m' \<noteq> None \<and> m_orderId m' \<noteq> Some [])))"
proof -
  have nf: "findById matchId w = None \<longrightarrow>
      acceptMatch matchId p q w = (Inl (Error ''Match not found''), w)"
    by (simp add: acceptMatch_def)
  have found: "(m_status m \<noteq> PENDING_ACCEPTANCE \<longrightarrow>
         acceptMatch matchId p q w = (Inl (Error ''Match is no longer pending acceptance''), w))
    \<and> (m_status m = PENDING_ACCEPTANCE \<and> now w > m_expiresAt m \<longrightarrow>
         fst (acceptMatch matchId p q w) = Inl (Error ''Match has expired'')
       \<and> findById matchId (snd (acceptMatch matchId p q w))
           = Some (m\<lparr> m_status := EXPIRED, m_updatedAt := clock w (reads w + 1) \<rparr>))
    \<and> (m_status m = PENDING_ACCEPTANCE \<and> \<not> now w > m_expiresAt m \<longrightarrow>
         (\<exists>m'. fst (acceptMatch matchId p q w) = Inr m'
             \<and> findById matchId (snd (acceptMatch matchId p q w)) = Some m'
             \<and> m' = m\<lparr> m_status := ACCEPTED,
                       m_updatedAt := clock w (reads w + 2),
                       m_acceptedAt := Some (clock w (reads w + 3)),
                       m_orderId := Some (''ord-'' @ decimal (clock w (reads w + 1))) \<rparr>
             \<and> m_orderId m' \<noteq> None \<and> m_orderId m' \<noteq> Some []))"
    if m: "findById matchId w = Some m" for m
  proof -
    have tbl: "find (\<lambda>m. m_id m = matchId) (match_tbl w) = Some m"
      using m by (simp add: findById_def)
    show ?thesis
      using m tbl
      apply (simp add: acceptMatch_def Let_def findById_tick match_updateStatus_eq
            findById_replaced)
      apply (simp add: match_updateData_def truthy_def tick_def now_def eval_nat_numeral)
      done
  qed
  from nf found show ?thesis by blast
qed

theorem acceptMatch_outcome_witness:
  "acceptMatch ''m0'' False None (ex_mworld PENDING_ACCEPTANCE 9000)
     = (Inl (Error ''Match not found''), ex_mworld PENDING_ACCEPTANCE 9000)
 \<and> acceptMatch ''m1'' False None (ex_mworld REJECTED 9000)
     = (Inl (Error ''Match is no longer pending acceptance''), ex_mworld REJECTED 9000)
 \<and> fst (acceptMatch ''m1'' False None (ex_mworld PENDING_ACCEPTANCE 4000))
     = Inl (Error ''Match has expired'')
 \<and> findById ''m1'' (snd (acceptMatch ''m1'' False None (ex_mworld PENDING_ACCEPTANCE 4000)))
     = Some ((ex_match EXPIRED 4000)\<lparr> m_updatedAt := 5001 \<rparr>)
 \<and> fst (acceptMatch ''m1'' False None (ex_mworld PENDING_ACCEPTANCE 9000))
     = Inr ((ex_match ACCEPTED 9000)
              \<lparr> m_updatedAt := 5002, m_acceptedAt := Some 5003, m_orderId := Some ''ord-5001'' \<rparr>)
 \<and> findById ''m1'' (snd (acceptMatch ''m1'' False None (ex_mworld PENDING_ACCEPTANCE 9000)))
     = Some ((ex_match ACCEPTED 9000)
              \<lparr> m_updatedAt := 5002, m_acceptedAt := Some 5003, m_orderId := Some ''ord-5001'' \<rparr>)"
proof -
  have d: "decimal 5001 = ''5001''"
    by (simp add: decimal_def digits.simps)
  have f0: "findById ''m0'' (ex_mworld PENDING_ACCEPTANCE 9000) = None"
    and f1: "findById ''m1'' (ex_mworld st t) = Some (ex_match st t)" for st t
    by (simp_all add: findById_def ex_mworld_def ex_match_def)
  show ?thesis
    using acceptMatch_outcome[of "''m0''" "ex_mworld PENDING_ACCEPTANCE 9000" False None]
      acceptMatch_outcome[of "''m1''" "ex_mworld REJECTED 9000" False None]
      acceptMatch_outcome[of "''m1''" "ex_mworld PENDING_ACCEPTANCE 4000" False None]
      acceptMatch_outcome[of "''m1''" "ex_mworld PENDING_ACCEPTANCE 9000" False None]
    by (simp add: f0 f1 d) (simp add: ex_mworld_def ex_match_def now_def d)
qed

subsection \<open>The expiry sweep\<close>

lemma replace_first_distinct:
  "distinct (map m_id xs) \<Longrightarrow>
   replace_first (\<lambda>m. m_id m = k) f xs = map (\<lambda>m. if m_id m = k then f m else m) xs"
proof (induction xs)
  case Nil
  then show ?case by simp
next
  case (Cons x xs)
  show ?case
  proof (cases "m_id x = k")
    case True
    have "m_id m \<noteq> k" if "m \<in> set xs" for m
    proof
      assume "m_id m = k"
      with that have "k \<in> set (map m_id xs)" by force
      with Cons.prems True show False by simp
    qed
    then have "map (\<lambda>m. if m_id m = k then f m else m) xs = xs"
      by (induction xs) auto
    with True show ?thesis by simp
  next
    case False
    with Cons show ?thesis by simp
  qed
qed

lemma find_id_Some: "k \<in> m_id ` set xs \<Longrightarrow> \<exists>m. find (\<lambda>m. m_id m = k) xs = Some m"
  by (induction xs) auto

lemma expire_step:
  assumes "distinct (map m_id (match_tbl w))" and "k \<in> m_id ` set (match_tbl w)"
  shows "\<exists>r. match_updateStatus k EXPIRED None w =
           (Inr r, (tick w)\<lparr> match_tbl :=
              map (\<lambda>m. if m_id m = k then m\<lparr> m_status := EXPIRED, m_updatedAt := now w \<rparr> else m)
                (match_tbl w) \<rparr>)"
proof -
  from find_id_Some[OF assms(2)] obtain m where "findById k w = Some m"
    by (auto simp: findById_def)
  from match_updateStatus_eq[OF this, of EXPIRED None] show ?thesis
    by (simp add: replace_first_distinct[OF assms(1)] match_updateData_def)
qed

lemma expire_loop_effect:
  "distinct (map m_id (match_tbl w)) \<Longrightarrow> m_id ` set sel \<subseteq> m_id ` set (match_tbl w) \<Longrightarrow>
   \<exists>w'. expire_loop sel c w = (Inr (c + length sel), w')
      \<and> clock w' = clock w \<and> reads w' = reads w + length sel \<and> order_tbl w' = order_tbl w
      \<and> list_all2 (\<lambda>m m'. if m_id m \<in> m_id ` set sel then expired_row m m' else m' = m)
           (match_tbl w) (match_tbl w')"
proof (induction sel arbitrary: c w)
  case Nil
  then show ?case by (simp add: list_all2_same)
next
  case (Cons x sel)
  let ?g = "\<lambda>m. if m_id m = m_id x then m\<lparr> m_status := EXPIRED, m_updatedAt := now w \<rparr> else m"
  let ?w1 = "(tick w)\<lparr> match_tbl := map ?g (match_tbl w) \<rparr>"
  from Cons.prems have kin: "m_id x \<in> m_id ` set (match_tbl w)" by auto
  from expire_step[OF Cons.prems(1) kin] obtain r where
    step: "match_updateStatus (m_id x) EXPIRED None w = (Inr r, ?w1)" by blast
  have ids: "map m_id (match_tbl ?w1) = map m_id (match_tbl w)"
    by (simp add: comp_def)
  have d1: "distinct (map m_id (match_tbl ?w1))"
    using Cons.prems(1) by (simp only: ids)
  have s1: "m_id ` set sel \<subseteq> m_id ` set (match_tbl ?w1)"
  proof -
    have "m_id ` set (match_tbl ?w1) = set (map m_id (match_tbl ?w1))" by (simp only: set_map)
    also have "\<dots> = set (map m_id (match_tbl w))" by (simp only: ids)
    finally show ?thesis using Cons.prems(2) by auto
  qed
  from Cons.IH[OF d1 s1, of "c + 1"] obtain w' where
    loop: "expire_loop sel (c + 1) ?w1 = (Inr (c + 1 + length sel), w')"
    and env: "clock w' = clock ?w1" "reads w' = reads ?w1 + length sel"
      "order_tbl w' = order_tbl ?w1"
    and rel: "list_all2 (\<lambda>m m'. if m_id m \<in> m_id ` set sel then expired_row m m' else m' = m)
           (match_tbl ?w1) (match_tbl w')"
    by blast
  from rel have rel1: "list_all2 (\<lambda>m m'. if m_id (?g m) \<in> m_id ` set sel
                          then expired_row (?g m) m' else m' = ?g m)
           (match_tbl w) (match_tbl w')"
    by (simp add: list_all2_map1)
  have rel2: "list_all2 (\<lambda>m m'. if m_id m \<in> m_id ` set (x # sel) then expired_row m m' else m' = m)
           (match_tbl w) (match_tbl w')"
    by (rule list_all2_mono[OF rel1]) (auto simp: expired_row_def split: if_splits)
  show ?case
    using step loop env rel2 by (simp add: tick_def)
qed

lemma expired_row_id: "expired_row m m' \<Longrightarrow> m_id m' = m_id m"
proof -
  assume "expired_row m m'"
  then have "m_id m' = m_id (m\<lparr> m_status := EXPIRED, m_updatedAt := m_updatedAt m' \<rparr>)"
    unfolding expired_row_def by (rule arg_cong)
  then show ?thesis by simp
qed

lemma sweep_rel_ids:
  "list_all2 (\<lambda>m m'. if m_id m \<in> K then expired_row m m' else m' = m) xs ys \<Longrightarrow>
   map m_id ys = map m_id xs"
  by (induction xs ys rule: list_all2_induct) (auto dest: expired_row_id split: if_splits)

lemma expired_row_not_due: "expired_row m m' \<Longrightarrow> \<not> expired_where t m'"
proof -
  assume "expired_row m m'"
  then have "m_status m' = m_status (m\<lparr> m_status := EXPIRED, m_updatedAt := m_updatedAt m' \<rparr>)"
    unfolding expired_row_def by (rule arg_cong)
  then show ?thesis by (simp add: expired_where_def)
qed

lemma sweep_rel_filter:
  "list_all2 (\<lambda>m m'. if m_id m \<in> K then expired_row m m' else m' = m) xs ys \<Longrightarrow>
   filter (expired_where t) ys = filter (\<lambda>m. m_id m \<notin> K \<and> expired_where t m) xs"
  by (induction xs ys rule: list_all2_induct) (auto dest: expired_row_not_due split: if_splits)

lemma sweep_first:
  assumes "distinct (map m_id (match_tbl w))"
  shows "\<exists>w'. expireMatches w = (Inr (length (fst (findExpiredPendingMatches w))), w')
      \<and> clock w' = clock w
      \<and> reads w' = reads w + 1 + length (fst (findExpiredPendingMatches w))
      \<and> order_tbl w' = order_tbl w
      \<and> list_all2 (\<lambda>m m'. if m_id m \<in> m_id ` set (fst (findExpiredPendingMatches w))
                            then expired_row m m' else m' = m)
           (match_tbl w) (match_tbl w')"
proof -
  let ?sel = "fst (findExpiredPendingMatches w)"
  have d: "distinct (map m_id (match_tbl (tick w)))"
    using assms by (simp add: tick_def)
  have sub: "m_id ` set ?sel \<subseteq> m_id ` set (match_tbl (tick w))"
    by (auto simp: findExpiredPendingMatches_def tick_def dest!: in_set_takeD)
  from expire_loop_effect[OF d sub, of 0] show ?thesis
    by (auto simp: expireMatches_def findExpiredPendingMatches_def tick_def)
qed

lemma sweep_second:
  assumes "distinct (map m_id (match_tbl w))"
  shows "now (snd (expireMatches w))
           = clock w (reads w + 1 + length (fst (findExpiredPendingMatches w)))"
    and "fst (findExpiredPendingMatches (snd (expireMatches w))) =
           take 100 (filter
             (\<lambda>m. m_id m \<notin> m_id ` set (fst (findExpiredPendingMatches w))
                  \<and> expired_where (now (snd (expireMatches w))) m)
             (match_tbl w))"
    and "fst (expireMatches (snd (expireMatches w))) =
           Inr (length (fst (findExpiredPendingMatches (snd (expireMatches w)))))"
proof -
  let ?sel = "fst (findExpiredPendingMatches w)"
  from sweep_first[OF assms] obtain w' where
    first: "expireMatches w = (Inr (length ?sel), w')"
    and env: "clock w' = clock w" "reads w' = reads w + 1 + length ?sel"
    and rel: "list_all2 (\<lambda>m m'. if m_id m \<in> m_id ` set ?sel then expired_row m m' else m' = m)
           (match_tbl w) (match_tbl w')"
    by blast
  have d': "distinct (map m_id (match_tbl w'))"
    using assms sweep_rel_ids[OF rel] by simp
  show "now (snd (expireMatches w)) = clock w (reads w + 1 + length ?sel)"
    using first env by (simp add: now_def)
  show "fst (findExpiredPendingMatches (snd (expireMatches w))) =
           take 100 (filter
             (\<lambda>m. m_id m \<notin> m_id ` set ?sel \<and> expired_where (now (snd (expireMatches w))) m)
             (match_tbl w))"
    using sweep_rel_filter[OF rel] first by (simp add: findExpiredPendingMatches_def)
  from sweep_first[OF d'] first
  show "fst (expireMatches (snd (expireMatches w))) =
           Inr (length (fst (findExpiredPendingMatches (snd (expireMatches w)))))"
    by auto
qed

text \<open>
  C4, as amended. On a table with unique ids the sweep selects the pending matches with
  \<^verbatim>\<open>expiresAt\<close> at or before the instant read, at most 100 of them; it returns how many
  it selected; every selected row becomes \<^verbatim>\<open>EXPIRED\<close> and every other row is left as
  it was. A second sweep right after the first returns the number, at most 100, of
  pending matches that are due at its own reading of the clock and were not selected by
  the first. With nothing due a sweep returns 0 and only the clock has been read. So the
  second sweep returns 0 and writes nothing, provided that at most 100 matches were due
  at the first sweep and that no pending match has become due in between.
\<close>

theorem expireMatches_sweep:
  assumes "distinct (map m_id (match_tbl w))"
  shows "fst (findExpiredPendingMatches w)
           = take 100 (filter (\<lambda>m. m_status m = PENDING_ACCEPTANCE \<and> m_expiresAt m \<le> now w)
                         (match_tbl w))
       \<and> length (fst (findExpiredPendingMatches w)) \<le> 100
       \<and> fst (expireMatches w) = Inr (length (fst (findExpiredPendingMatches w)))
       \<and> list_all2 (\<lambda>m m'. if m_id m \<in> m_id ` set (fst (findExpiredPendingMatches w))
                             then expired_row m m' else m' = m)
           (match_tbl w) (match_tbl (snd (expireMatches w)))
       \<and> fst (expireMatches (snd (expireMatches w)))
           = Inr (length (take 100 (filter
                   (\<lambda>m. m_id m \<notin> m_id ` set (fst (findExpiredPendingMatches w))
                        \<and> expired_where (now (snd (expireMatches w))) m)
                   (match_tbl w))))
       \<and> (filter (expired_where (now w)) (match_tbl w) = [] \<longrightarrow>
            expireMatches w = (Inr 0, tick w))
       \<and> (length (filter (expired_where (now w)) (match_tbl w)) \<le> 100
          \<and> (\<forall>m\<in>set (match_tbl w).
                m_status m = PENDING_ACCEPTANCE \<and> m_expiresAt m \<le> now (snd (expireMatches w))
                \<longrightarrow> m_expiresAt m \<le> now w) \<longrightarrow>
            expireMatches (snd (expireMatches w)) = (Inr 0, tick (snd (expireMatches w))))"
proof -
  let ?sel = "fst (findExpiredPendingMatches w)"
  let ?w' = "snd (expireMatches w)"
  have sel: "?sel = take 100 (filter (expired_where (now w)) (match_tbl w))"
    by (simp add: findExpiredPendingMatches_def)
  have c1: "?sel = take 100 (filter (\<lambda>m. m_status m = PENDING_ACCEPTANCE \<and> m_expiresAt m \<le> now w)
                         (match_tbl w))"
    by (simp add: findExpiredPendingMatches_def expired_where_def[abs_def])
  have c2: "length ?sel \<le> 100"
    by (simp add: findExpiredPendingMatches_def)
  from sweep_first[OF assms] obtain w1 where
    f: "expireMatches w = (Inr (length ?sel), w1)"
    and rel: "list_all2 (\<lambda>m m'. if m_id m \<in> m_id ` set ?sel then expired_row m m' else m' = m)
           (match_tbl w) (match_tbl w1)"
    by blast
  have c3: "fst (expireMatches w) = Inr (length ?sel)"
    by (simp only: f fst_conv)
  have c4: "list_all2 (\<lambda>m m'. if m_id m \<in> m_id ` set ?sel then expired_row m m' else m' = m)
           (match_tbl w) (match_tbl ?w')"
    using rel by (simp only: f snd_conv)
  have cN: "fst (expireMatches ?w')
           = Inr (length (take 100 (filter
                   (\<lambda>m. m_id m \<notin> m_id ` set ?sel \<and> expired_where (now ?w') m)
                   (match_tbl w))))"
    using sweep_second(2,3)[OF assms] by simp
  have c5: "filter (expired_where (now w)) (match_tbl w) = [] \<longrightarrow>
            expireMatches w = (Inr 0, tick w)"
    by (simp add: expireMatches_def findExpiredPendingMatches_def)
  have c6: "expireMatches ?w' = (Inr 0, tick ?w')"
    if le: "length (filter (expired_where (now w)) (match_tbl w)) \<le> 100"
      and nonew: "\<forall>m\<in>set (match_tbl w).
                m_status m = PENDING_ACCEPTANCE \<and> m_expiresAt m \<le> now ?w'
                \<longrightarrow> m_expiresAt m \<le> now w"
  proof -
    from le have all: "?sel = filter (expired_where (now w)) (match_tbl w)"
      by (simp add: sel)
    have "filter (\<lambda>m. m_id m \<notin> m_id ` set ?sel \<and> expired_where (now ?w') m) (match_tbl w) = []"
    proof -
      have "m_id m \<in> m_id ` set ?sel"
        if "m \<in> set (match_tbl w)" and "expired_where (now ?w') m" for m
      proof -
        from that nonew have "expired_where (now w) m"
          by (auto simp: expired_where_def)
        with that(1) have "m \<in> set ?sel" by (simp add: all)
        then show ?thesis by (rule imageI)
      qed
      then show ?thesis by (auto simp: filter_empty_conv)
    qed
    with sweep_second(2)[OF assms] have "fst (findExpiredPendingMatches ?w') = []"
      by simp
    then show ?thesis
      by (simp add: expireMatches_def findExpiredPendingMatches_def)
  qed
  from c6 have c6': "length (filter (expired_where (now w)) (match_tbl w)) \<le> 100
          \<and> (\<forall>m\<in>set (match_tbl w).
                m_status m = PENDING_ACCEPTANCE \<and> m_expiresAt m \<le> now ?w'
                \<longrightarrow> m_expiresAt m \<le> now w) \<longrightarrow>
            expireMatches ?w' = (Inr 0, tick ?w')"
    by (intro impI) (elim conjE)
  show ?thesis
    by (intro conjI; fact c1 c2 c3 c4 cN c5 c6')
qed

theorem expireMatches_sweep_witness:
  "distinct (map m_id (match_tbl ex_two))
   \<and> expireMatches ex_two = (Inr 1, ex_two_after)
   \<and> expireMatches ex_two_after = (Inr 0, tick ex_two_after)
   \<and> match_tbl (tick ex_two_after) = match_tbl ex_two_after"
proof -
  have d: "distinct (map m_id (match_tbl ex_two))"
    by (simp add: ex_two_def ex_match_def)
  have e: "expireMatches ex_two = (Inr 1, ex_two_after)"
    by (simp add: expireMatches_def findExpiredPendingMatches_def expired_where_def
          match_updateStatus_def store_update_def match_updateData_def now_def tick_def
          ex_two_def ex_two_after_def ex_match_def Let_def)
  have le: "length (filter (expired_where (now ex_two)) (match_tbl ex_two)) \<le> 100"
    by (simp add: ex_two_def)
  have nonew: "\<forall>m\<in>set (match_tbl ex_two).
      m_status m = PENDING_ACCEPTANCE \<and> m_expiresAt m \<le> now (snd (expireMatches ex_two))
      \<longrightarrow> m_expiresAt m \<le> now ex_two"
    by (simp add: e) (simp add: ex_two_def ex_two_after_def ex_match_def now_def)
  note s = expireMatches_sweep[OF d]
  have "expireMatches (snd (expireMatches ex_two)) = (Inr 0, tick (snd (expireMatches ex_two)))"
    using conjunct2[OF conjunct2[OF conjunct2[OF conjunct2[OF conjunct2[OF conjunct2[OF s]]]]]]
      le nonew
    by (elim impE) (rule conjI)
  then have "expireMatches ex_two_after = (Inr 0, tick ex_two_after)"
    by (simp add: e)
  with d e show ?thesis by (simp add: tick_def)
qed

text \<open>
  C4 as stated fails when more than 100 matches are due: of 101 due matches, under a
  clock that stands still, the first sweep expires 100 and the second sweep returns 1.
\<close>

theorem expireMatches_second_sweep_counterexample:
  "distinct (map m_id (match_tbl ex_sweep_world))
   \<and> now (snd (expireMatches ex_sweep_world)) = now ex_sweep_world
   \<and> fst (expireMatches ex_sweep_world) = Inr 100
   \<and> fst (expireMatches (snd (expireMatches ex_sweep_world))) = Inr 1"
proof -
  have tbl: "match_tbl ex_sweep_world = map ex_sweep_row [0..<101]"
    and clk: "clock ex_sweep_world k = 1000" "now ex_sweep_world = 1000" for k
    by (simp_all add: ex_sweep_world_def now_def)
  have d: "distinct (map m_id (match_tbl ex_sweep_world))"
    unfolding tbl by code_simp
  have sel: "fst (findExpiredPendingMatches ex_sweep_world) = map ex_sweep_row [0..<100]"
    unfolding findExpiredPendingMatches_def fst_conv tbl clk by code_simp
  have n1: "fst (expireMatches ex_sweep_world) = Inr 100"
    using sweep_first[OF d] by (auto simp: sel)
  have t2: "now (snd (expireMatches ex_sweep_world)) = 1000"
    using sweep_second(1)[OF d] by (simp add: clk)
  have "fst (findExpiredPendingMatches (snd (expireMatches ex_sweep_world))) = [ex_sweep_row 100]"
    unfolding sweep_second(2)[OF d] t2 sel tbl by code_simp
  then have n2: "fst (expireMatches (snd (expireMatches ex_sweep_world))) = Inr 1"
    using sweep_second(3)[OF d] by simp
  from d t2 n1 n2 show ?thesis by (simp add: clk)
qed

subsection \<open>Rejecting a match\<close>

text \<open>
  C5, as amended. Rejecting a match that exists fails with
  \<^verbatim>\<open>Match is <status> and cannot be rejected\<close>, the world untouched, exactly when its
  status is neither \<^verbatim>\<open>PENDING_ACCEPTANCE\<close> nor \<^verbatim>\<open>EXPIRED\<close>; otherwise it succeeds,
  and the match returned and stored is \<^verbatim>\<open>REJECTED\<close> with \<^verbatim>\<open>rejectedAt\<close> stamped from
  the clock. The reason is recorded when it is a non-empty string; with the empty string
  the stored \<^verbatim>\<open>rejectionReason\<close> is left as it was.
\<close>

theorem rejectMatch_outcome:
  "(findById matchId w = None \<longrightarrow>
      rejectMatch matchId reason w = (Inl (Error ''Match not found''), w))
 \<and> (\<forall>m. findById matchId w = Some m \<longrightarrow>
      (m_status m \<noteq> PENDING_ACCEPTANCE \<and> m_status m \<noteq> EXPIRED \<longrightarrow>
         rejectMatch matchId reason w =
           (Inl (Error (''Match is '' @ MatchStatus_string (m_status m)
                          @ '' and cannot be rejected'')), w))
    \<and> (m_status m = PENDING_ACCEPTANCE \<or> m_status m = EXPIRED \<longrightarrow>
         fst (rejectMatch matchId reason w)
           = Inr (m\<lparr> m_status := REJECTED,
                     m_updatedAt := clock w (reads w),
                     m_rejectedAt := Some (clock w (reads w + 1)),
                     m_rejectionReason :=
                       (if reason = [] then m_rejectionReason m else Some reason) \<rparr>)
       \<and> findById matchId (snd (rejectMatch matchId reason w))
           = Some (m\<lparr> m_status := REJECTED,
                      m_updatedAt := clock w (reads w),
                      m_rejectedAt := Some (clock w (reads w + 1)),
                      m_rejectionReason :=
                        (if reason = [] then m_rejectionReason m else Some reason) \<rparr>)))"
proof -
  have nf: "findById matchId w = None \<longrightarrow>
      rejectMatch matchId reason w = (Inl (Error ''Match not found''), w)"
    by (simp add: rejectMatch_def)
  have found: "(m_status m \<noteq> PENDING_ACCEPTANCE \<and> m_status m \<noteq> EXPIRED \<longrightarrow>
         rejectMatch matchId reason w =
           (Inl (Error (''Match is '' @ MatchStatus_string (m_status m)
                          @ '' and cannot be rejected'')), w))
    \<and> (m_status m = PENDING_ACCEPTANCE \<or> m_status m = EXPIRED \<longrightarrow>
         fst (rejectMatch matchId reason w)
           = Inr (m\<lparr> m_status := REJECTED,
                     m_updatedAt := clock w (reads w),
                     m_rejectedAt := Some (clock w (reads w + 1)),
                     m_rejectionReason :=
                       (if reason = [] then m_rejectionReason m else Some reason) \<rparr>)
       \<and> findById matchId (snd (rejectMatch matchId reason w))
           = Some (m\<lparr> m_status := REJECTED,
                      m_updatedAt := clock w (reads w),
                      m_rejectedAt := Some (clock w (reads w + 1)),
                      m_rejectionReason :=
                        (if reason = [] then m_rejectionReason m else Some reason) \<rparr>))"
    if m: "findById matchId w = Some m" for m
  proof -
    have tbl: "find (\<lambda>m. m_id m = matchId) (match_tbl w) = Some m"
      using m by (simp add: findById_def)
    show ?thesis
      using m tbl
      apply (simp add: rejectMatch_def Let_def match_updateStatus_eq findById_replaced)
      apply (auto simp add: match_updateData_def truthy_def tick_def now_def)
      done
  qed
  from nf found show ?thesis by blast
qed

theorem rejectMatch_outcome_witness:
  "rejectMatch ''m0'' ''SOLD_ELSEWHERE'' (ex_mworld PENDING_ACCEPTANCE 9000)
     = (Inl (Error ''Match not found''), ex_mworld PENDING_ACCEPTANCE 9000)
 \<and> rejectMatch ''m1'' ''SOLD_ELSEWHERE'' (ex_mworld ACCEPTED 9000)
     = (Inl (Error ''Match is ACCEPTED and cannot be rejected''), ex_mworld ACCEPTED 9000)
 \<and> fst (rejectMatch ''m1'' ''SOLD_ELSEWHERE'' (ex_mworld EXPIRED 4000))
     = Inr ((ex_match REJECTED 4000)
              \<lparr> m_updatedAt := 5000, m_rejectedAt := Some 5001,
                m_rejectionReason := Some ''SOLD_ELSEWHERE'' \<rparr>)
 \<and> findById ''m1'' (snd (rejectMatch ''m1'' ''SOLD_ELSEWHERE'' (ex_mworld PENDING_ACCEPTANCE 9000)))
     = Some ((ex_match REJECTED 9000)
              \<lparr> m_updatedAt := 5000, m_rejectedAt := Some 5001,
                m_rejectionReason := Some ''SOLD_ELSEWHERE'' \<rparr>)"
proof -
  have f0: "findById ''m0'' (ex_mworld PENDING_ACCEPTANCE 9000) = None"
    and f1: "findById ''m1'' (ex_mworld st t) = Some (ex_match st t)" for st t
    by (simp_all add: findById_def ex_mworld_def ex_match_def)
  show ?thesis
    using rejectMatch_outcome[of "''m0''" "ex_mworld PENDING_ACCEPTANCE 9000" "''SOLD_ELSEWHERE''"]
      rejectMatch_outcome[of "''m1''" "ex_mworld ACCEPTED 9000" "''SOLD_ELSEWHERE''"]
      rejectMatch_outcome[of "''m1''" "ex_mworld EXPIRED 4000" "''SOLD_ELSEWHERE''"]
      rejectMatch_outcome[of "''m1''" "ex_mworld PENDING_ACCEPTANCE 9000" "''SOLD_ELSEWHERE''"]
    by (simp add: f0 f1) (simp add: ex_mworld_def ex_match_def)
qed

text \<open>
  C5 as stated fails for the empty reason: the pending match is rejected, and the
  \<^verbatim>\<open>rejectionReason\<close> returned and stored is still \<^verbatim>\<open>null\<close>, not the reason supplied.
\<close>

theorem rejectMatch_empty_reason_counterexample:
  "fst (rejectMatch ''m1'' '''' (ex_mworld PENDING_ACCEPTANCE 9000))
     = Inr ((ex_match REJECTED 9000)\<lparr> m_updatedAt := 5000, m_rejectedAt := Some 5001 \<rparr>)
   \<and> m_rejectionReason ((ex_match REJECTED 9000)\<lparr> m_updatedAt := 5000, m_rejectedAt := Some 5001 \<rparr>)
     = None
   \<and> map_option m_rejectionReason
        (findById ''m1'' (snd (rejectMatch ''m1'' '''' (ex_mworld PENDING_ACCEPTANCE 9000))))
     = Some None"
  by (simp add: rejectMatch_def findById_def match_updateStatus_def store_update_def
        match_updateData_def truthy_def now_def tick_def ex_mworld_def ex_match_def Let_def)

subsection \<open>The instant of expiry\<close>

text \<open>
  C9. A pending match whose \<^verbatim>\<open>expiresAt\<close> equals the instant read: \<^verbatim>\<open>acceptMatch\<close>
  succeeds (its test is \<open>now > expiresAt\<close>); the sweep's \<^verbatim>\<open>where\<close> clause holds of it
  (\<open>expiresAt \<le> now\<close>), so the sweep selects it whenever no more than 100 matches are
  due; the \<^verbatim>\<open>where\<close> clause of the pending listing does not hold of it
  (\<open>expiresAt > now\<close>), so no listing shows it.
\<close>

theorem expiry_instant_boundary:
  assumes "findById matchId w = Some m"
    and "m_status m = PENDING_ACCEPTANCE"
    and "m_expiresAt m = now w"
  shows "fst (acceptMatch matchId p q w)
           = Inr (m\<lparr> m_status := ACCEPTED,
                     m_updatedAt := clock w (reads w + 2),
                     m_acceptedAt := Some (clock w (reads w + 3)),
                     m_orderId := Some (''ord-'' @ decimal (clock w (reads w + 1))) \<rparr>)
       \<and> expired_where (now w) m
       \<and> m \<in> set (filter (expired_where (now w)) (match_tbl w))
       \<and> (length (filter (expired_where (now w)) (match_tbl w)) \<le> 100 \<longrightarrow>
            m \<in> set (fst (findExpiredPendingMatches w)))
       \<and> \<not> pending_where farmerId (now w) m
       \<and> m \<notin> set (fst (findPendingByFarmerId farmerId limit offset w))
       \<and> m \<notin> set (fst (getPendingMatches farmerId w))"
proof -
  have tbl: "find (\<lambda>m. m_id m = matchId) (match_tbl w) = Some m"
    using assms(1) by (simp add: findById_def)
  then have mem: "m \<in> set (match_tbl w)"
    by (auto simp: find_Some_iff)
  have acc: "fst (acceptMatch matchId p q w)
           = Inr (m\<lparr> m_status := ACCEPTED,
                     m_updatedAt := clock w (reads w + 2),
                     m_acceptedAt := Some (clock w (reads w + 3)),
                     m_orderId := Some (''ord-'' @ decimal (clock w (reads w + 1))) \<rparr>)"
    using assms tbl
    apply (simp add: acceptMatch_def Let_def findById_tick match_updateStatus_eq)
    apply (simp add: match_updateData_def truthy_def tick_def now_def eval_nat_numeral)
    done
  have due: "expired_where (now w) m"
    using assms by (simp add: expired_where_def)
  have np: "\<not> pending_where farmerId (now w) m"
    using assms by (simp add: pending_where_def)
  have nl: "m \<notin> set (fst (findPendingByFarmerId farmerId limit offset w))" for limit offset
    using np by (auto simp: findPendingByFarmerId_def dest!: in_set_takeD in_set_dropD)
  show ?thesis
    using acc due mem np nl
    by (simp add: findExpiredPendingMatches_def getPendingMatches_def)
qed

theorem expiry_instant_boundary_witness:
  "fst (acceptMatch ''m1'' False None (ex_mworld PENDING_ACCEPTANCE 5000))
     = Inr ((ex_match ACCEPTED 5000)
              \<lparr> m_updatedAt := 5002, m_acceptedAt := Some 5003, m_orderId := Some ''ord-5001'' \<rparr>)
   \<and> fst (findExpiredPendingMatches (ex_mworld PENDING_ACCEPTANCE 5000))
     = [ex_match PENDING_ACCEPTANCE 5000]
   \<and> fst (getPendingMatches 1001 (ex_mworld PENDING_ACCEPTANCE 5000)) = []"
proof -
  have d: "decimal 5001 = ''5001''"
    by (simp add: decimal_def digits.simps)
  have f1: "findById ''m1'' (ex_mworld PENDING_ACCEPTANCE 5000) = Some (ex_match PENDING_ACCEPTANCE 5000)"
    by (simp add: findById_def ex_mworld_def ex_match_def)
  have s: "m_status (ex_match PENDING_ACCEPTANCE 5000) = PENDING_ACCEPTANCE"
    and t: "m_expiresAt (ex_match PENDING_ACCEPTANCE 5000) = now (ex_mworld PENDING_ACCEPTANCE 5000)"
    by (simp_all add: ex_match_def ex_mworld_def now_def)
  from expiry_instant_boundary[OF f1 s t, of False None 1001 10 0] show ?thesis
    by (simp add: d)
      (simp add: ex_mworld_def ex_match_def now_def findExpiredPendingMatches_def
         getPendingMatches_def findPendingByFarmerId_def expired_where_def pending_where_def d)
qed

subsection \<open>Transactions\<close>

lemma days_le_90: "(a div msPerDay \<le> 90) \<longleftrightarrow> a < 91 * msPerDay"
proof -
  define q r where "q = a div 86400000" and "r = a mod 86400000"
  have "a = 86400000 * q + r" and "0 \<le> r" and "r < 86400000"
    by (simp_all add: q_def r_def)
  then have "q \<le> 90 \<longleftrightarrow> a < 7862400000"
    by linarith
  then show ?thesis
    by (simp add: msPerDay_def q_def)
qed

text \<open>
  C7. For an order that the transaction view finds, \<^verbatim>\<open>canDownloadReceipt\<close> is true
  exactly when the whole number of days from the reference date (\<^verbatim>\<open>paidAt\<close>, or
  \<^verbatim>\<open>updatedAt\<close> when \<^verbatim>\<open>paidAt\<close> is absent) to the instant read is at most 90, that is,
  when less than 91 days have passed: true at exactly 90 days, false at exactly 91.
\<close>

theorem canDownloadReceipt_ninety_days:
  assumes "find (transaction_where orderId farmerId) (order_tbl w) = Some row"
  shows "\<exists>d. fst (getTransactionDetails jp orderId farmerId w) = Some d
     \<and> (td_canDownloadReceipt d \<longleftrightarrow> (now w - paidDate row) div msPerDay \<le> 90)
     \<and> (td_canDownloadReceipt d \<longleftrightarrow> now w - paidDate row < 91 * msPerDay)
     \<and> (paidDate row = now w - 90 * msPerDay \<longrightarrow> td_canDownloadReceipt d)
     \<and> (paidDate row = now w - 91 * msPerDay \<longrightarrow> \<not> td_canDownloadReceipt d)
     \<and> paidDate row = (case o_paidAt row of Some p \<Rightarrow> p | None \<Rightarrow> o_updatedAt row)"
proof -
  have d: "fst (getTransactionDetails jp orderId farmerId w) =
      Some \<lparr> td_id = o_orderNumber row,
             td_timeline = parseStatusHistory jp (o_statusHistory row),
             td_platformFee = 0,
             td_upiTxnId = maskedUpiId row,
             td_paidAt = o_paidAt row,
             td_createdAt = o_createdAt row,
             td_canDownloadReceipt = canDownloadReceipt (now w) row \<rparr>"
    using assms by (simp add: getTransactionDetails_def)
  have c: "canDownloadReceipt (now w) row \<longleftrightarrow> (now w - paidDate row) div msPerDay \<le> 90"
    by (simp add: canDownloadReceipt_def daysSincePaid_def)
  have b: "canDownloadReceipt (now w) row \<longleftrightarrow> now w - paidDate row < 91 * msPerDay"
    by (simp add: c days_le_90)
  have p: "paidDate row = (case o_paidAt row of Some p \<Rightarrow> p | None \<Rightarrow> o_updatedAt row)"
    by (simp add: paidDate_def split: option.splits)
  have pos: "0 < msPerDay" by (simp add: msPerDay_def)
  show ?thesis
    unfolding d using c b p pos by auto
qed

theorem canDownloadReceipt_ninety_days_witness:
  "map_option td_canDownloadReceipt
     (fst (getTransactionDetails ex_JSON_parse ''ORD-1'' 1001
            (ex_paid_world (10000000000 - 90 * msPerDay) None))) = Some True
 \<and> map_option td_canDownloadReceipt
     (fst (getTransactionDetails ex_JSON_parse ''ORD-1'' 1001
            (ex_paid_world (10000000000 - 91 * msPerDay) None))) = Some False"
proof -
  have f: "find (transaction_where ''ORD-1'' 1001) (order_tbl (ex_paid_world paid None))
             = Some (ex_paid_order paid None)" for paid
    by (simp add: transaction_where_def ex_paid_world_def ex_paid_order_def ex_order_def)
  have n: "now (ex_paid_world paid None) = 10000000000"
    and p: "paidDate (ex_paid_order paid None) = paid" for paid
    by (simp_all add: now_def ex_paid_world_def paidDate_def ex_paid_order_def)
  from canDownloadReceipt_ninety_days[OF f[of "10000000000 - 90 * msPerDay"], of ex_JSON_parse]
    canDownloadReceipt_ninety_days[OF f[of "10000000000 - 91 * msPerDay"], of ex_JSON_parse]
  show ?thesis
    by (auto simp: n p)
qed

text \<open>
  C10. For an order that the transaction view finds, the UPI reference shown is the empty
  string when the stored id is absent, the stored id itself when it has at most 8
  characters, and \<^verbatim>\<open>****\<close> followed by its last 8 characters when it is longer.
\<close>

theorem upiTxnId_masking:
  assumes "find (transaction_where orderId farmerId) (order_tbl w) = Some row"
  shows "\<exists>d. fst (getTransactionDetails jp orderId farmerId w) = Some d
     \<and> (o_upiTransactionId row = None \<longrightarrow> td_upiTxnId d = [])
     \<and> (\<forall>u. o_upiTransactionId row = Some u \<longrightarrow>
           (length u \<le> 8 \<longrightarrow> td_upiTxnId d = u)
         \<and> (8 < length u \<longrightarrow>
              td_upiTxnId d = ''****'' @ drop (length u - 8) u
            \<and> length (td_upiTxnId d) = 12
            \<and> drop 4 (td_upiTxnId d) = drop (length u - 8) u))"
  using assms
  by (auto simp: getTransactionDetails_def maskedUpiId_def Let_def)

theorem upiTxnId_masking_witness:
  "map_option td_upiTxnId
     (fst (getTransactionDetails ex_JSON_parse ''ORD-1'' 1001
            (ex_paid_world 0 (Some ''UPI123456ABCD1234'')))) = Some ''****ABCD1234''
 \<and> map_option td_upiTxnId
     (fst (getTransactionDetails ex_JSON_parse ''ORD-1'' 1001
            (ex_paid_world 0 (Some ''ABCD1234'')))) = Some ''ABCD1234''
 \<and> map_option td_upiTxnId
     (fst (getTransactionDetails ex_JSON_parse ''ORD-1'' 1001
            (ex_paid_world 0 None))) = Some ''''"
proof -
  have f: "find (transaction_where ''ORD-1'' 1001) (order_tbl (ex_paid_world 0 upi))
             = Some (ex_paid_order 0 upi)" for upi
    by (simp add: transaction_where_def ex_paid_world_def ex_paid_order_def ex_order_def)
  have u: "o_upiTransactionId (ex_paid_order 0 upi) = upi" for upi
    by (simp add: ex_paid_order_def)
  from upiTxnId_masking[OF f[of "Some ''UPI123456ABCD1234''"], of ex_JSON_parse]
    upiTxnId_masking[OF f[of "Some ''ABCD1234''"], of ex_JSON_parse]
    upiTxnId_masking[OF f[of None], of ex_JSON_parse]
  show ?thesis
    by (auto simp: u)
qed

text \<open>
  C8, as amended. For a valid farmer id: when the query gives neither \<^verbatim>\<open>fromDate\<close>
  nor \<^verbatim>\<open>toDate\<close>, the repository is handed the filter with \<^verbatim>\<open>fromDate\<close> set to the
  instant that \<^verbatim>\<open>setDate(getDate() - 90)\<close> gives, the same local time of day 90
  calendar days before the instant read, and the \<^verbatim>\<open>where\<close> clause built from it has
  exactly this lower bound. That bound is the instant read minus 90 times 86 400 000 ms,
  plus the zone's offset at the instant read, minus the zone's offset at the resulting
  local time; so it is exactly 90 times 24 hours before the instant read if and only if
  the two offsets are equal. When either date is given, the repository is handed the
  filter unchanged and the lower bound of its \<^verbatim>\<open>where\<close> clause is absent or the
  \<^verbatim>\<open>fromDate\<close> given, never a default.
\<close>

theorem default_date_window:
  "0 < f_farmerId flt \<longrightarrow>
     (f_fromDate flt = None \<and> f_toDate flt = None \<longrightarrow>
        service_getTransactions tza repo flt w
          = (case repo (flt\<lparr> f_fromDate := Some (setDate_plus tza (- 90) (now w)) \<rparr>) (tick w) of
               (result, w2) \<Rightarrow> (Inr result, w2))
      \<and> w_createdAt (fst (getTransactions_where tza
            (flt\<lparr> f_fromDate := Some (setDate_plus tza (- 90) (now w)) \<rparr>) (tick w)))
          = Some \<lparr> gte = Some (setDate_plus tza (- 90) (now w)), lte = None \<rparr>
      \<and> setDate_plus tza (- 90) (now w)
          = now w - 90 * msPerDay
            + (tza (now w) True - tza (now w + tza (now w) True - 90 * msPerDay) False)
      \<and> (setDate_plus tza (- 90) (now w) = now w - 90 * msPerDay
           \<longleftrightarrow> tza (now w) True = tza (now w + tza (now w) True - 90 * msPerDay) False))
   \<and> (f_fromDate flt \<noteq> None \<or> f_toDate flt \<noteq> None \<longrightarrow>
        service_getTransactions tza repo flt w
          = (case repo flt w of (result, w2) \<Rightarrow> (Inr result, w2))
      \<and> (\<exists>cond. w_createdAt (fst (getTransactions_where tza flt w)) = Some cond
              \<and> (gte cond = None \<or> gte cond = f_fromDate flt)))"
proof -
  let ?d = "setDate_plus tza (- 90) (now w)"
  have v: "service_validateFarmerId (f_farmerId flt) = Inr ()" if "0 < f_farmerId flt"
    using that by (simp add: service_validateFarmerId_def)
  have s1: "service_getTransactions tza repo flt w
          = (case repo (flt\<lparr> f_fromDate := Some ?d \<rparr>) (tick w) of
               (result, w2) \<Rightarrow> (Inr result, w2))"
    if "0 < f_farmerId flt" "f_fromDate flt = None \<and> f_toDate flt = None"
    using that by (simp add: service_getTransactions_def v appliedFilter_def)
  have s2: "service_getTransactions tza repo flt w
          = (case repo flt w of (result, w2) \<Rightarrow> (Inr result, w2))"
    if "0 < f_farmerId flt" "f_fromDate flt \<noteq> None \<or> f_toDate flt \<noteq> None"
    using that by (auto simp add: service_getTransactions_def v appliedFilter_def)
  have w1: "w_createdAt (fst (getTransactions_where tza (flt\<lparr> f_fromDate := Some ?d \<rparr>) (tick w)))
          = Some \<lparr> gte = Some ?d, lte = None \<rparr>"
    if "f_toDate flt = None"
    using that by (simp add: getTransactions_where_def Let_def)
  have w2: "\<exists>cond. w_createdAt (fst (getTransactions_where tza flt w)) = Some cond
              \<and> (gte cond = None \<or> gte cond = f_fromDate flt)"
    if "f_fromDate flt \<noteq> None \<or> f_toDate flt \<noteq> None"
    using that by (cases "f_fromDate flt"; cases "f_toDate flt")
      (simp_all add: getTransactions_where_def Let_def)
  have c: "?d = now w - 90 * msPerDay
            + (tza (now w) True - tza (now w + tza (now w) True - 90 * msPerDay) False)"
    by (simp add: setDate_plus_def UTC_def LocalTime_def)
  have e: "?d = now w - 90 * msPerDay
           \<longleftrightarrow> tza (now w) True = tza (now w + tza (now w) True - 90 * msPerDay) False"
    unfolding c by linarith
  from s1 s2 w1 w2 c e show ?thesis by blast
qed

theorem default_date_window_witness:
  "service_getTransactions ex_LocalTZA (getTransactions_where ex_LocalTZA)
     (ex_filter None None) ex_world
     = (Inr \<lparr> w_farmerId = 1001, w_deletedAt_null = True,
              w_trackingStatus_in = [PAID, DELIVERED],
              w_createdAt = Some \<lparr> gte = Some (5000 - 90 * msPerDay), lte = None \<rparr>,
              w_cropType_contains = None \<rparr>,
        ex_world\<lparr> reads := 2 \<rparr>)
 \<and> service_getTransactions ex_LocalTZA (getTransactions_where ex_LocalTZA)
     (ex_filter (Some 1234) None) ex_world
     = (Inr \<lparr> w_farmerId = 1001, w_deletedAt_null = True,
              w_trackingStatus_in = [PAID, DELIVERED],
              w_createdAt = Some \<lparr> gte = Some 1234, lte = None \<rparr>,
              w_cropType_contains = None \<rparr>,
        ex_world\<lparr> reads := 1 \<rparr>)"
  using default_date_window[of "ex_filter None None" ex_LocalTZA
          "getTransactions_where ex_LocalTZA" ex_world]
    default_date_window[of "ex_filter (Some 1234) None" ex_LocalTZA
          "getTransactions_where ex_LocalTZA" ex_world]
  by (simp add: ex_filter_def ex_LocalTZA_def ex_world_def getTransactions_where_def
        setDate_plus_def UTC_def LocalTime_def now_def tick_def truthy_def Let_def)

text \<open>
  C8 as stated fails in a zone with daylight saving: ten days after the switch to winter
  time, the default lower bound handed to the repository and put into the \<^verbatim>\<open>where\<close>
  clause is 90 days and one hour before the instant read, not 90 days before it.
\<close>

theorem default_date_window_dst_counterexample:
  "f_fromDate (fst (appliedFilter ex_dst_LocalTZA (ex_filter None None) ex_dst_world))
     = Some (now ex_dst_world - 90 * 86400000 - 3600000)
 \<and> f_fromDate (fst (appliedFilter ex_dst_LocalTZA (ex_filter None None) ex_dst_world))
     \<noteq> Some (now ex_dst_world - 90 * 86400000)
 \<and> fst (service_getTransactions ex_dst_LocalTZA (getTransactions_where ex_dst_LocalTZA)
          (ex_filter None None) ex_dst_world)
     = Inr \<lparr> w_farmerId = 1001, w_deletedAt_null = True,
             w_trackingStatus_in = [PAID, DELIVERED],
             w_createdAt =
               Some \<lparr> gte = Some (now ex_dst_world - 90 * 86400000 - 3600000), lte = None \<rparr>,
             w_cropType_contains = None \<rparr>"
  by (simp add: service_getTransactions_def service_validateFarmerId_def appliedFilter_def
        getTransactions_where_def setDate_plus_def UTC_def LocalTime_def msPerDay_def
        ex_dst_LocalTZA_def ex_dst_world_def ex_filter_def now_def tick_def truthy_def
        Let_def)

end
